theory Spec2Isabelle
  imports Complex_Main
begin

section \<open>Numbers and constants\<close>

text \<open>
  The JavaScript numbers of the host modules and the \<^verbatim>\<open>float\<close>s of the shaders are
  modelled as real numbers: rounding, overflow and infinities are outside the model, and
  so is NaN, except in the radial coordinate that the integrators test after each step.
  \<^verbatim>\<open>Math.sqrt\<close>, \<^verbatim>\<open>Math.cos\<close>, \<^verbatim>\<open>Math.acos\<close> and \<^verbatim>\<open>Math.pow\<close> are \<^const>\<open>sqrt\<close>,
  \<^const>\<open>cos\<close>, \<^const>\<open>arccos\<close> and \<^const>\<open>powr\<close>; \<^verbatim>\<open>Math.PI\<close> is \<^const>\<open>pi\<close>.
  The shaders do not use the mathematical constant: they define decimal literals.
\<close>

definition EPSILON :: real where
  "EPSILON = 1 / 1000000"

definition PI :: real where
  "PI = 3.14159265359"

definition TWO_PI :: real where
  "TWO_PI = 6.28318530718"

definition HALF_PI :: real where
  "HALF_PI = 1.57079632679"

text \<open>GLSL \<^verbatim>\<open>clamp(x, lo, hi)\<close> is \<^verbatim>\<open>min(max(x, lo), hi)\<close>.\<close>

definition clamp :: "real \<Rightarrow> real \<Rightarrow> real \<Rightarrow> real" where
  "clamp x lo hi = min (max x lo) hi"

definition safeSqrt :: "real \<Rightarrow> real" where
  "safeSqrt x = sqrt (max x 0)"

text \<open>
  \<^verbatim>\<open>Math.atan2(y, x)\<close> and the two-argument GLSL \<^verbatim>\<open>atan(y, x)\<close>: the angle of the
  point \<open>(x, y)\<close> in \<open>(-\<pi>, \<pi>]\<close>, and 0 at the origin.
\<close>

definition atan2 :: "real \<Rightarrow> real \<Rightarrow> real" where
  "atan2 y x =
     (if 0 < x then arctan (y / x)
      else if x < 0 then (if 0 \<le> y then arctan (y / x) + pi else arctan (y / x) - pi)
      else if 0 < y then pi / 2
      else if y < 0 then - (pi / 2)
      else 0)"


section \<open>The host metric model: class KerrMetric\<close>

text \<open>
  An object of class \<^verbatim>\<open>KerrMetric\<close> has the fields \<^verbatim>\<open>M\<close>, \<^verbatim>\<open>a\<close> and \<^verbatim>\<open>a2\<close>.
\<close>

record KerrMetric =
  km_M :: real
  km_a :: real
  km_a2 :: real

text \<open>
  The two exceptions of \<^verbatim>\<open>setParameters\<close>: \<^verbatim>\<open>Error('Mass must be positive')\<close> and
  \<^verbatim>\<open>Error(`Spin parameter |a| must be <= M. Got a=${spin}, M=${mass}`)\<close>; the second
  carries the spin and the mass that its message prints.
\<close>

datatype InvalidParameter = MassMustBePositive | SpinExceedsMass real real

text \<open>
  \<^verbatim>\<open>setParameters\<close> mutates \<^verbatim>\<open>this\<close>. The model returns the exception thrown (if any)
  together with the object as it is when the call ends.
\<close>

definition setParameters :: "KerrMetric \<Rightarrow> real \<Rightarrow> real \<Rightarrow> InvalidParameter option \<times> KerrMetric" where
  "setParameters this mass spin =
     (if mass \<le> 0 then (Some MassMustBePositive, this)
      else if \<bar>spin\<bar> > mass then (Some (SpinExceedsMass spin mass), this)
      else (None, this\<lparr>km_M := mass, km_a := spin, km_a2 := spin * spin\<rparr>))"

text \<open>
  \<^verbatim>\<open>new KerrMetric(mass, spin)\<close>: the constructor calls \<^verbatim>\<open>setParameters\<close> on the fresh
  object, whose fields are not yet set (the placeholder values below are all overwritten
  on success); an exception leaves the caller without an object.
\<close>

definition KerrMetric_new :: "real \<Rightarrow> real \<Rightarrow> InvalidParameter + KerrMetric" where
  "KerrMetric_new mass spin =
     (case setParameters \<lparr>km_M = 0, km_a = 0, km_a2 = 0\<rparr> mass spin of
        (Some e, _) \<Rightarrow> Inl e
      | (None, this) \<Rightarrow> Inr this)"

definition sigma :: "KerrMetric \<Rightarrow> real \<Rightarrow> real \<Rightarrow> real" where
  "sigma this r theta = (let cosTheta = cos theta in r * r + km_a2 this * cosTheta * cosTheta)"

definition delta :: "KerrMetric \<Rightarrow> real \<Rightarrow> real" where
  "delta this r = r * r - 2 * km_M this * r + km_a2 this"

definition eventHorizonRadius :: "KerrMetric \<Rightarrow> real" where
  "eventHorizonRadius this = km_M this + sqrt (max 0 (km_M this * km_M this - km_a2 this))"

definition innerHorizonRadius :: "KerrMetric \<Rightarrow> real" where
  "innerHorizonRadius this = km_M this - sqrt (max 0 (km_M this * km_M this - km_a2 this))"

definition ergosphereRadius :: "KerrMetric \<Rightarrow> real \<Rightarrow> real" where
  "ergosphereRadius this theta =
     (let cosTheta = cos theta
      in km_M this + sqrt (max 0 (km_M this * km_M this - km_a2 this * cosTheta * cosTheta)))"

text \<open>The intermediate \<^verbatim>\<open>Z1\<close> and \<^verbatim>\<open>Z2\<close> of both ISCO methods, computed from \<^verbatim>\<open>chi\<close>.\<close>

definition isco_Z1 :: "real \<Rightarrow> real" where
  "isco_Z1 chi =
     (let chi2 = chi * chi;
          oneMinusChi2_13 = (1 - chi2) powr (1 / 3);
          onePlusChi_13 = (1 + chi) powr (1 / 3);
          oneMinusChi_13 = \<bar>1 - chi\<bar> powr (1 / 3)
      in 1 + oneMinusChi2_13 * (onePlusChi_13 + oneMinusChi_13))"

definition isco_Z2 :: "real \<Rightarrow> real" where
  "isco_Z2 chi = (let chi2 = chi * chi; Z1 = isco_Z1 chi in sqrt (3 * chi2 + Z1 * Z1))"

definition iscoRadius :: "KerrMetric \<Rightarrow> real" where
  "iscoRadius this =
     (let chi = km_a this / km_M this; Z1 = isco_Z1 chi; Z2 = isco_Z2 chi
      in km_M this * (3 + Z2 - sqrt ((3 - Z1) * (3 + Z1 + 2 * Z2))))"

definition iscoRadiusRetrograde :: "KerrMetric \<Rightarrow> real" where
  "iscoRadiusRetrograde this =
     (let chi = km_a this / km_M this; Z1 = isco_Z1 chi; Z2 = isco_Z2 chi
      in km_M this * (3 + Z2 + sqrt ((3 - Z1) * (3 + Z1 + 2 * Z2))))"

definition photonSphereRadius :: "KerrMetric \<Rightarrow> real" where
  "photonSphereRadius this =
     (if \<bar>km_a this\<bar> < EPSILON then 3 * km_M this
      else let chi = max (- 1) (min 1 (km_a this / km_M this))
           in 2 * km_M this * (1 + cos ((2 / 3) * arccos (- chi))))"


subsection \<open>Coordinate transforms of the host\<close>







section \<open>The host disk model: class AccretionDisk\<close>

record AccretionDisk =
  ad_M :: real
  ad_a :: real
  ad_outerRadius :: real
  ad_T0 :: real
  ad_innerRadius :: real

definition calculateISCO :: "AccretionDisk \<Rightarrow> real" where
  "calculateISCO this =
     (let chi = ad_a this / ad_M this; Z1 = isco_Z1 chi; Z2 = isco_Z2 chi
      in ad_M this * (3 + Z2 - sqrt ((3 - Z1) * (3 + Z1 + 2 * Z2))))"

text \<open>
  \<^verbatim>\<open>new AccretionDisk(mass, spin, innerRadius = null, outerRadius = 15, peakTemperature = 1e7)\<close>.
  The inner radius is \<^verbatim>\<open>innerRadius || this.calculateISCO()\<close>: \<^verbatim>\<open>null\<close> (here \<open>None\<close>)
  and 0 are both falsy and select the ISCO.
\<close>

definition AccretionDisk_new :: "real \<Rightarrow> real \<Rightarrow> real option \<Rightarrow> real \<Rightarrow> real \<Rightarrow> AccretionDisk" where
  "AccretionDisk_new mass spin innerRadius outerRadius peakTemperature =
     (let this = \<lparr>ad_M = mass, ad_a = spin, ad_outerRadius = outerRadius,
                   ad_T0 = peakTemperature, ad_innerRadius = 0\<rparr>
      in this\<lparr>ad_innerRadius :=
           (case innerRadius of
              None \<Rightarrow> calculateISCO this
            | Some ri \<Rightarrow> if ri = 0 then calculateISCO this else ri)\<rparr>)"

definition temperature :: "AccretionDisk \<Rightarrow> real \<Rightarrow> real" where
  "temperature this r =
     (if r \<le> ad_innerRadius this then 0
      else let x = r / ad_M this;
               xISCO = ad_innerRadius this / ad_M this;
               f = 1 - sqrt (xISCO / x)
           in if f \<le> 0 then 0
              else let temp = ad_T0 this * (1 / (x * x * x)) powr 0.25 * f powr 0.25
                   in min temp (ad_T0 this))"

definition keplerianOmega :: "AccretionDisk \<Rightarrow> real \<Rightarrow> real" where
  "keplerianOmega this r =
     (let sqrtM = sqrt (ad_M this); r15 = r * sqrt r
      in sqrtM / (r15 + ad_a this * sqrtM))"

definition orbitalVelocity :: "AccretionDisk \<Rightarrow> real \<Rightarrow> real" where
  "orbitalVelocity this r =
     (let omega = keplerianOmega this r;
          sig = r * r;
          del = r * r - 2 * ad_M this * r + ad_a this * ad_a this;
          gtt = - (1 - 2 * ad_M this * r / sig);
          gtphi = - 2 * ad_a this * ad_M this * r / sig;
          gphiphi = ((r * r + ad_a this * ad_a this) ^ 2 - ad_a this * ad_a this * del) / sig;
          denom = sqrt (- gtt - 2 * gtphi * omega - gphiphi * omega * omega)
      in if denom < 1 / 10 ^ 10 then 0.999
         else let v = sqrt gphiphi * omega / denom in min v 0.999)"

definition gravitationalRedshift :: "AccretionDisk \<Rightarrow> real \<Rightarrow> real" where
  "gravitationalRedshift this r =
     (let sig = r * r; gtt = 1 - 2 * ad_M this * r / sig
      in sqrt (max gtt (1 / 10 ^ 10)))"

definition dopplerFactor :: "AccretionDisk \<Rightarrow> real \<Rightarrow> real \<Rightarrow> real" where
  "dopplerFactor this r viewAngle =
     (let v = orbitalVelocity this r;
          gamma = 1 / sqrt (1 - v * v);
          vRadial = v * cos viewAngle
      in 1 / (gamma * (1 - vRadial)))"


section \<open>Shader utilities (utils.glsl, kerr-metric.glsl)\<close>

datatype vec3 = Vec3 (vx: real) (vy: real) (vz: real)

definition dot :: "vec3 \<Rightarrow> vec3 \<Rightarrow> real" where
  "dot u v = vx u * vx v + vy u * vy v + vz u * vz v"

definition cross :: "vec3 \<Rightarrow> vec3 \<Rightarrow> vec3" where
  "cross u v = Vec3 (vy u * vz v - vz u * vy v) (vz u * vx v - vx u * vz v) (vx u * vy v - vy u * vx v)"

definition length_v :: "vec3 \<Rightarrow> real" where
  "length_v v = sqrt (vx v * vx v + vy v * vy v + vz v * vz v)"

definition scale :: "real \<Rightarrow> vec3 \<Rightarrow> vec3" where
  "scale c v = Vec3 (c * vx v) (c * vy v) (c * vz v)"

definition add_v :: "vec3 \<Rightarrow> vec3 \<Rightarrow> vec3" where
  "add_v u v = Vec3 (vx u + vx v) (vy u + vy v) (vz u + vz v)"

text \<open>
  GLSL \<^verbatim>\<open>normalize\<close> divides by the length; on the zero vector its result is undefined in
  GLSL and is the zero vector here (division by zero in \<^typ>\<open>real\<close>).
\<close>

definition normalize :: "vec3 \<Rightarrow> vec3" where
  "normalize v = Vec3 (vx v / length_v v) (vy v / length_v v) (vz v / length_v v)"

definition cartesianToSpherical :: "vec3 \<Rightarrow> vec3" where
  "cartesianToSpherical p =
     (let r = length_v p
      in if r < EPSILON then Vec3 0 0 0
         else let theta = arccos (clamp (vz p / r) (- 1) 1);
                  phi = atan2 (vy p) (vx p);
                  phi = (if phi < 0 then phi + TWO_PI else phi)
              in Vec3 r theta phi)"

definition cartesianToBoyerLindquist_gl :: "vec3 \<Rightarrow> real \<Rightarrow> vec3" where
  "cartesianToBoyerLindquist_gl p a =
     (let x = vx p; y = vy p; z = vz p
      in if \<bar>a\<bar> < EPSILON then cartesianToSpherical p
         else let a2 = a * a;
                  rho2 = x * x + y * y + z * z;
                  b = rho2 - a2;
                  c = - a2 * z * z;
                  discriminant = b * b - 4 * c;
                  r2 = (b + safeSqrt discriminant) * 0.5;
                  r = safeSqrt r2;
                  cosTheta = (if r > EPSILON then z / r else 0);
                  theta = arccos (clamp cosTheta (- 1) 1);
                  phi = atan2 y x;
                  phi = (if phi < 0 then phi + TWO_PI else phi)
              in Vec3 r theta phi)"

definition boyerLindquistToCartesian_gl :: "vec3 \<Rightarrow> real \<Rightarrow> vec3" where
  "boyerLindquistToCartesian_gl bl a =
     (let r = vx bl; theta = vy bl; phi = vz bl;
          sinTheta = sin theta; cosTheta = cos theta;
          rho = safeSqrt (r * r + a * a)
      in Vec3 (rho * sinTheta * cos phi) (rho * sinTheta * sin phi) (r * cosTheta))"


definition sigma_gl :: "real \<Rightarrow> real \<Rightarrow> real \<Rightarrow> real" where
  "sigma_gl r theta a = (let cosTheta = cos theta in r * r + a * a * cosTheta * cosTheta)"

definition eventHorizonRadius_gl :: "real \<Rightarrow> real \<Rightarrow> real" where
  "eventHorizonRadius_gl M a = M + safeSqrt (M * M - a * a)"

definition photonSphereRadius_gl :: "real \<Rightarrow> real \<Rightarrow> real" where
  "photonSphereRadius_gl M a =
     (if \<bar>a\<bar> < EPSILON then 3 * M
      else let chi = clamp (a / M) (- 1) 1
           in 2 * M * (1 + cos (2 / 3 * arccos (- chi))))"


subsection \<open>Disk temperature in the shader (accretion-disk.glsl)\<close>

definition diskTemperature :: "real \<Rightarrow> real \<Rightarrow> real \<Rightarrow> real \<Rightarrow> real" where
  "diskTemperature r rISCO T0 M =
     (if r \<le> rISCO then 0
      else let x = r / M;
               xISCO = rISCO / M;
               f = 1 - sqrt (xISCO / x)
           in if f \<le> 0 then 0
              else let temp = T0 * (1 / (x * x * x)) powr 0.25 * f powr 0.25
                   in temp)"

text \<open>
  \<^verbatim>\<open>diskTemperatureNT\<close> also computes \<^verbatim>\<open>x1\<close>, \<^verbatim>\<open>x2\<close>, \<^verbatim>\<open>x3\<close> and a first value of \<^verbatim>\<open>Q\<close>
  that it never reads; they are left out.
\<close>

definition diskTemperatureNT :: "real \<Rightarrow> real \<Rightarrow> real \<Rightarrow> real \<Rightarrow> real \<Rightarrow> real" where
  "diskTemperatureNT r rISCO T0 M a =
     (if r \<le> rISCO * 1.001 then 0
      else let x = sqrt (r / M);
               xISCO = sqrt (rISCO / M);
               aStar = a / M;
               f = 1 - xISCO / x
           in if f \<le> 0 then 0
              else let y = x * x;
                       correction = 1 + aStar / (y * sqrt y);
                       Q = f * correction;
                       temp = T0 * (max Q 0 / (y * y * y)) powr 0.25
                   in clamp temp 0 50000)"


section \<open>The geodesic integrator (geodesic-integrator.glsl)\<close>

datatype ray_status = RAY_ACTIVE | RAY_CAPTURED | RAY_ESCAPED | RAY_MAX_STEPS

definition R_potential :: "real \<Rightarrow> real \<Rightarrow> real \<Rightarrow> real \<Rightarrow> real \<Rightarrow> real \<Rightarrow> real" where
  "R_potential r E Lz Q M a =
     (let r2 = r * r; a2 = a * a;
          del = r2 - 2 * M * r + a2;
          term1 = (r2 + a2) * E - a * Lz;
          term2 = Lz - a * E
      in term1 * term1 - del * (term2 * term2 + Q))"

definition Theta_potential :: "real \<Rightarrow> real \<Rightarrow> real \<Rightarrow> real \<Rightarrow> real \<Rightarrow> real" where
  "Theta_potential theta E Lz Q a =
     (let cosTheta = cos theta; sinTheta = sin theta;
          cos2 = cosTheta * cosTheta; sin2 = sinTheta * sinTheta
      in if sin2 < EPSILON then Q + a * a * E * E * cos2
         else let cot2 = cos2 / sin2
              in Q + a * a * E * E * cos2 - Lz * Lz * cot2)"

text \<open>The three \<^verbatim>\<open>out\<close> parameters \<^verbatim>\<open>E\<close>, \<^verbatim>\<open>Lz\<close>, \<^verbatim>\<open>Q\<close> are returned as a triple.\<close>

definition computeConservedQuantities ::
  "real \<Rightarrow> real \<Rightarrow> real \<Rightarrow> real \<Rightarrow> real \<Rightarrow> real \<Rightarrow> real \<Rightarrow> real \<times> real \<times> real" where
  "computeConservedQuantities r theta dr_dlambda dtheta_dlambda dphi_dlambda M a =
     (let r2 = r * r; a2 = a * a;
          sinTheta = sin theta; cosTheta = cos theta;
          sin2 = sinTheta * sinTheta; cos2 = cosTheta * cosTheta;
          sig = r2 + a2 * cos2;
          del = r2 - 2 * M * r + a2;
          E = 1;
          omega = a * (r2 + a2) / del - a;
          coeff = 1 / sin2 - a2 / del;
          Lz = (if \<bar>coeff\<bar> > EPSILON then (sig * dphi_dlambda - omega * E) / coeff else 0);
          sig_dtheta = sig * dtheta_dlambda;
          Q = sig_dtheta * sig_dtheta - a2 * E * E * cos2;
          Q = (if sin2 > EPSILON then Q + Lz * Lz * cos2 / sin2 else Q)
      in (E, Lz, Q))"

text \<open>
  The phase-space point of a ray: \<^verbatim>\<open>r\<close>, \<^verbatim>\<open>theta\<close>, \<^verbatim>\<open>phi\<close>, \<^verbatim>\<open>pr\<close>, \<^verbatim>\<open>ptheta\<close>, which the
  shader keeps in five local variables and passes \<^verbatim>\<open>inout\<close>.
\<close>

record geodesic =
  g_r :: real
  g_theta :: real
  g_phi :: real
  g_pr :: real
  g_ptheta :: real

text \<open>
  \<^verbatim>\<open>initializeGeodesic\<close> returns the point and the conserved quantities. Its first value
  of \<^verbatim>\<open>thetaHat\<close> is overwritten on both branches before it is read and is left out.
\<close>

definition initializeGeodesic :: "vec3 \<Rightarrow> vec3 \<Rightarrow> real \<Rightarrow> real \<Rightarrow> geodesic \<times> real \<times> real \<times> real" where
  "initializeGeodesic camPos rayDir M a =
     (let bl = cartesianToBoyerLindquist_gl camPos a;
          r = vx bl; theta = vy bl; phi = vz bl;
          theta = clamp theta 0.01 (PI - 0.01);
          sinTheta = sin theta; cosTheta = cos theta;
          rHat = normalize camPos;
          zAxis = Vec3 0 0 1;
          rxy = sqrt (vx camPos * vx camPos + vy camPos * vy camPos);
          thetaHat = (if rxy > EPSILON
                      then Vec3 (vz camPos * vx camPos / (r * rxy))
                                (vz camPos * vy camPos / (r * rxy))
                                (- rxy / r)
                      else Vec3 1 0 0);
          phiHat = normalize (cross zAxis rHat);
          phiHat = (if length_v (cross zAxis rHat) < EPSILON then Vec3 0 1 0 else phiHat);
          dr_dl = dot rayDir rHat;
          dtheta_dl = dot rayDir thetaHat / r;
          dphi_dl = dot rayDir phiHat / (r * sinTheta + EPSILON);
          (E, Lz, Q) = computeConservedQuantities r theta dr_dl dtheta_dl dphi_dl M a;
          sig = sigma_gl r theta a;
          R = R_potential r E Lz Q M a;
          pr = sgn dr_dl * safeSqrt (max R 0) / sig;
          Th = Theta_potential theta E Lz Q a;
          ptheta = sgn dtheta_dl * safeSqrt (max Th 0) / sig
      in (\<lparr>g_r = r, g_theta = theta, g_phi = phi, g_pr = pr, g_ptheta = ptheta\<rparr>, E, Lz, Q))"

definition geodesicDerivatives ::
  "real \<Rightarrow> real \<Rightarrow> real \<Rightarrow> real \<Rightarrow> real \<Rightarrow> real \<Rightarrow> real \<Rightarrow> real \<Rightarrow> real \<Rightarrow> vec3" where
  "geodesicDerivatives r theta pr ptheta E Lz Q M a =
     (let r2 = r * r; a2 = a * a;
          sinTheta = sin theta; cosTheta = cos theta;
          sin2 = sinTheta * sinTheta; cos2 = cosTheta * cosTheta;
          sig = r2 + a2 * cos2;
          del = r2 - 2 * M * r + a2;
          dr_dl = pr * sig;
          dtheta_dl = ptheta * sig;
          dphi_dl = (if sin2 > EPSILON
                     then let P = (r2 + a2) * E - a * Lz
                          in (- a * E + Lz / sin2 + a * P / del) / sig
                     else 0)
      in Vec3 dr_dl dtheta_dl dphi_dl)"

definition momentumDerivatives ::
  "real \<Rightarrow> real \<Rightarrow> real \<Rightarrow> real \<Rightarrow> real \<Rightarrow> real \<Rightarrow> real \<Rightarrow> real \<Rightarrow> real \<Rightarrow> real \<times> real" where
  "momentumDerivatives r theta pr ptheta E Lz Q M a =
     (let r2 = r * r; a2 = a * a;
          sinTheta = sin theta; cosTheta = cos theta;
          sin2 = sinTheta * sinTheta; cos2 = cosTheta * cosTheta;
          sig = r2 + a2 * cos2;
          del = r2 - 2 * M * r + a2;
          dDel_dr = 2 * r - 2 * M;
          P = (r2 + a2) * E - a * Lz;
          dP_dr = 2 * r * E;
          term2 = Lz - a * E;
          dR_dr = 2 * P * dP_dr - dDel_dr * (term2 * term2 + Q);
          dSigPr_dl = dR_dr / (2 * sig);
          dTheta_dtheta = - 2 * a2 * E * E * cosTheta * sinTheta;
          dTheta_dtheta = (if sin2 > EPSILON
                           then dTheta_dtheta + 2 * Lz * Lz * cosTheta / (sinTheta * sin2)
                           else dTheta_dtheta);
          dSigPth_dl = dTheta_dtheta / (2 * sig)
      in (dSigPr_dl / sig, dSigPth_dl / sig))"


subsection \<open>rk4Step\<close>

text \<open>
  \<^verbatim>\<open>rk4Step\<close> is split along its own comments. A substage point is the quadruple
  \<open>(r, theta, pr, ptheta)\<close> at which the derivatives are evaluated; \<open>rk4_k\<close> is the pair
  \<^verbatim>\<open>(k_pos, k_mom)\<close> there; \<open>rk4_stage s c k\<close> is the next substage point
  \<^verbatim>\<open>r + c * k_pos.x\<close>, \<^verbatim>\<open>clamp(theta + c * k_pos.y, 0.001, PI - 0.001)\<close>,
  \<^verbatim>\<open>pr + c * k_mom.x\<close>, \<^verbatim>\<open>ptheta + c * k_mom.y\<close>, with \<open>c\<close> being \<^verbatim>\<open>0.5 * h\<close> for k2 and k3
  and \<^verbatim>\<open>h\<close> for k4.
\<close>

type_synonym stage = "real \<times> real \<times> real \<times> real"

definition rk4_k :: "stage \<Rightarrow> real \<Rightarrow> real \<Rightarrow> real \<Rightarrow> real \<Rightarrow> real \<Rightarrow> vec3 \<times> real \<times> real" where
  "rk4_k p E Lz Q M a =
     (case p of (r, theta, pr, ptheta) \<Rightarrow>
        (geodesicDerivatives r theta pr ptheta E Lz Q M a,
         momentumDerivatives r theta pr ptheta E Lz Q M a))"

definition rk4_stage :: "geodesic \<Rightarrow> real \<Rightarrow> vec3 \<times> real \<times> real \<Rightarrow> stage" where
  "rk4_stage s c k =
     (g_r s + c * vx (fst k),
      clamp (g_theta s + c * vy (fst k)) 0.001 (PI - 0.001),
      g_pr s + c * fst (snd k),
      g_ptheta s + c * snd (snd k))"

definition rk4_k1 :: "geodesic \<Rightarrow> real \<Rightarrow> real \<Rightarrow> real \<Rightarrow> real \<Rightarrow> real \<Rightarrow> vec3 \<times> real \<times> real" where
  "rk4_k1 s E Lz Q M a = rk4_k (g_r s, g_theta s, g_pr s, g_ptheta s) E Lz Q M a"

definition rk4_stage2 :: "geodesic \<Rightarrow> real \<Rightarrow> real \<Rightarrow> real \<Rightarrow> real \<Rightarrow> real \<Rightarrow> real \<Rightarrow> stage" where
  "rk4_stage2 s E Lz Q M a h = rk4_stage s (0.5 * h) (rk4_k1 s E Lz Q M a)"

definition rk4_k2 :: "geodesic \<Rightarrow> real \<Rightarrow> real \<Rightarrow> real \<Rightarrow> real \<Rightarrow> real \<Rightarrow> real \<Rightarrow> vec3 \<times> real \<times> real" where
  "rk4_k2 s E Lz Q M a h = rk4_k (rk4_stage2 s E Lz Q M a h) E Lz Q M a"

definition rk4_stage3 :: "geodesic \<Rightarrow> real \<Rightarrow> real \<Rightarrow> real \<Rightarrow> real \<Rightarrow> real \<Rightarrow> real \<Rightarrow> stage" where
  "rk4_stage3 s E Lz Q M a h = rk4_stage s (0.5 * h) (rk4_k2 s E Lz Q M a h)"

definition rk4_k3 :: "geodesic \<Rightarrow> real \<Rightarrow> real \<Rightarrow> real \<Rightarrow> real \<Rightarrow> real \<Rightarrow> real \<Rightarrow> vec3 \<times> real \<times> real" where
  "rk4_k3 s E Lz Q M a h = rk4_k (rk4_stage3 s E Lz Q M a h) E Lz Q M a"

definition rk4_stage4 :: "geodesic \<Rightarrow> real \<Rightarrow> real \<Rightarrow> real \<Rightarrow> real \<Rightarrow> real \<Rightarrow> real \<Rightarrow> stage" where
  "rk4_stage4 s E Lz Q M a h = rk4_stage s h (rk4_k3 s E Lz Q M a h)"

definition rk4_k4 :: "geodesic \<Rightarrow> real \<Rightarrow> real \<Rightarrow> real \<Rightarrow> real \<Rightarrow> real \<Rightarrow> real \<Rightarrow> vec3 \<times> real \<times> real" where
  "rk4_k4 s E Lz Q M a h = rk4_k (rk4_stage4 s E Lz Q M a h) E Lz Q M a"

text \<open>The part of \<^verbatim>\<open>rk4Step\<close> under \<^verbatim>\<open>// Update\<close> and \<^verbatim>\<open>// Clamp theta to valid range\<close>.\<close>

definition rk4_update :: "geodesic \<Rightarrow> real \<Rightarrow> real \<Rightarrow> real \<Rightarrow> real \<Rightarrow> real \<Rightarrow> real \<Rightarrow> geodesic" where
  "rk4_update s E Lz Q M a h =
     (let (k1_pos, k1_mom) = rk4_k1 s E Lz Q M a;
          (k2_pos, k2_mom) = rk4_k2 s E Lz Q M a h;
          (k3_pos, k3_mom) = rk4_k3 s E Lz Q M a h;
          (k4_pos, k4_mom) = rk4_k4 s E Lz Q M a h;
          r = g_r s + h * (vx k1_pos + 2 * vx k2_pos + 2 * vx k3_pos + vx k4_pos) / 6;
          theta = g_theta s + h * (vy k1_pos + 2 * vy k2_pos + 2 * vy k3_pos + vy k4_pos) / 6;
          phi = g_phi s + h * (vz k1_pos + 2 * vz k2_pos + 2 * vz k3_pos + vz k4_pos) / 6;
          pr = g_pr s + h * (fst k1_mom + 2 * fst k2_mom + 2 * fst k3_mom + fst k4_mom) / 6;
          ptheta = g_ptheta s + h * (snd k1_mom + 2 * snd k2_mom + 2 * snd k3_mom + snd k4_mom) / 6;
          theta = clamp theta 0.001 (PI - 0.001)
      in \<lparr>g_r = r, g_theta = theta, g_phi = phi, g_pr = pr, g_ptheta = ptheta\<rparr>)"

text \<open>The part of \<^verbatim>\<open>rk4Step\<close> under \<^verbatim>\<open>// Handle turning points\<close>.\<close>

definition turningPoints :: "geodesic \<Rightarrow> real \<Rightarrow> real \<Rightarrow> real \<Rightarrow> real \<Rightarrow> real \<Rightarrow> geodesic" where
  "turningPoints s E Lz Q M a =
     (let R = R_potential (g_r s) E Lz Q M a;
          Th = Theta_potential (g_theta s) E Lz Q a;
          s = (if R < 0 then s\<lparr>g_pr := - g_pr s\<rparr> else s);
          s = (if Th < 0 then s\<lparr>g_ptheta := - g_ptheta s\<rparr> else s)
      in s)"

definition rk4Step :: "geodesic \<Rightarrow> real \<Rightarrow> real \<Rightarrow> real \<Rightarrow> real \<Rightarrow> real \<Rightarrow> real \<Rightarrow> geodesic" where
  "rk4Step s E Lz Q M a h = turningPoints (rk4_update s E Lz Q M a h) E Lz Q M a"

subsection \<open>integrateGeodesic\<close>

text \<open>
  What stays fixed during the loop of one ray: the conserved quantities, the black-hole
  parameters, \<^verbatim>\<open>rH\<close>, \<^verbatim>\<open>rPh\<close>, the three integrator settings and \<^verbatim>\<open>rayDir\<close>.
\<close>

record integrator_env =
  ie_E :: real
  ie_Lz :: real
  ie_Q :: real
  ie_M :: real
  ie_a :: real
  ie_rH :: real
  ie_rPh :: real
  ie_maxSteps :: int
  ie_escapeRadius :: real
  ie_stepSize :: real
  ie_rayDir :: vec3

text \<open>
  The result of a ray: the returned status, the \<^verbatim>\<open>out\<close> parameter \<^verbatim>\<open>finalDir\<close>, and the
  number of calls of \<^verbatim>\<open>rk4Step\<close> made (not a value of the shader; it is recorded to state
  the bound on the work per ray).
\<close>

record ray_result =
  res_status :: ray_status
  res_finalDir :: vec3
  res_steps :: int

text \<open>
  After \<^verbatim>\<open>rk4Step\<close> both integrators test \<^verbatim>\<open>r < 0.0 || r != r\<close>. A \<^verbatim>\<open>float\<close> is a number or
  NaN; every ordered comparison with NaN is false, and \<^verbatim>\<open>!=\<close> with NaN is true, so that
  \<^verbatim>\<open>r != r\<close> holds exactly when \<^verbatim>\<open>r\<close> is NaN.
\<close>

datatype glfloat = Num real | NaN

definition fl_less :: "glfloat \<Rightarrow> real \<Rightarrow> bool" where
  "fl_less x c = (case x of Num v \<Rightarrow> v < c | NaN \<Rightarrow> False)"

definition fl_noteq :: "glfloat \<Rightarrow> glfloat \<Rightarrow> bool" where
  "fl_noteq x y =
     (case x of Num v \<Rightarrow> (case y of Num w \<Rightarrow> v \<noteq> w | NaN \<Rightarrow> True) | NaN \<Rightarrow> True)"

definition isNaN :: "glfloat \<Rightarrow> bool" where
  "isNaN r = fl_noteq r r"

text \<open>
  \<^const>\<open>rk4Step\<close> is computed in real arithmetic, where no NaN arises. In the shader a
  division by zero or an overflow inside the step can leave NaN in \<^verbatim>\<open>r\<close>; at which steps
  that happens is not determined by the real-number model and is left open: \<open>nan s h\<close>
  tells whether the step of size \<open>h\<close> taken from the point \<open>s\<close> leaves NaN in \<^verbatim>\<open>r\<close>. Both
  loops take \<open>nan\<close> as a parameter, and everything proved about them holds for every
  \<open>nan\<close>. \<open>steppedRadius nan s h s'\<close> is the \<^verbatim>\<open>r\<close> that the shader holds after that step,
  \<open>s'\<close> being the point computed in real arithmetic.
\<close>

type_synonym nan_steps = "geodesic \<Rightarrow> real \<Rightarrow> bool"

definition steppedRadius :: "nan_steps \<Rightarrow> geodesic \<Rightarrow> real \<Rightarrow> geodesic \<Rightarrow> glfloat" where
  "steppedRadius nan s h s' = (if nan s h then NaN else Num (g_r s'))"

text \<open>
  Two instances, used to exercise the loops: a run in which no step leaves NaN (the step as
  real arithmetic computes it), and a run in which every step does.
\<close>

definition no_nan :: nan_steps where
  "no_nan s h = False"

definition every_nan :: nan_steps where
  "every_nan s h = True"

text \<open>The body of \<^verbatim>\<open>if (r > escapeRadius)\<close>: the value assigned to \<^verbatim>\<open>finalDir\<close>.\<close>

definition escapeDirection :: "geodesic \<Rightarrow> real \<Rightarrow> real \<Rightarrow> real \<Rightarrow> real \<Rightarrow> real \<Rightarrow> vec3" where
  "escapeDirection s E Lz Q M a =
     (let r = g_r s; theta = g_theta s; phi = g_phi s;
          pos = boyerLindquistToCartesian_gl (Vec3 r theta phi) a;
          sinTheta = sin theta;
          rHat = normalize pos;
          zAxis = Vec3 0 0 1;
          phiHat = normalize (cross zAxis rHat);
          phiHat = (if length_v (cross zAxis rHat) < EPSILON then Vec3 0 1 0 else phiHat);
          rxy = sqrt (vx pos * vx pos + vy pos * vy pos);
          thetaHat = (if rxy > EPSILON
                      then Vec3 (vz pos * vx pos / (r * rxy)) (vz pos * vy pos / (r * rxy)) (- rxy / r)
                      else Vec3 1 0 0);
          vel = geodesicDerivatives r theta (g_pr s) (g_ptheta s) E Lz Q M a
      in normalize (add_v (add_v (scale (vx vel) rHat) (scale (r * vy vel) thetaHat))
                          (scale (r * sinTheta * vz vel) phiHat)))"

text \<open>The adaptive step size of \<^verbatim>\<open>integrateGeodesic\<close>.\<close>

definition adaptiveStep :: "integrator_env \<Rightarrow> geodesic \<Rightarrow> real" where
  "adaptiveStep env s =
     (let distToHorizon = g_r s - ie_rH env;
          h = ie_stepSize env * clamp (distToHorizon / ie_rPh env) 0.01 1.0
      in if \<bar>g_r s - ie_rPh env\<bar> < ie_rPh env * 0.5 then h * 0.5 else h)"

text \<open>
  The \<^verbatim>\<open>for (int i = 0; i < 1000; i++)\<close> loop, entered at counter \<open>i\<close> with the point \<open>s\<close>;
  falling out of the loop reaches the final \<^verbatim>\<open>return RAY_MAX_STEPS\<close>. \<^verbatim>\<open>finalDir\<close> holds
  \<^verbatim>\<open>rayDir\<close> unless the ray escapes.
\<close>

function integrateGeodesic_loop ::
  "nan_steps \<Rightarrow> integrator_env \<Rightarrow> int \<Rightarrow> geodesic \<Rightarrow> ray_result" where
  "integrateGeodesic_loop nan env i s =
     (if \<not> i < 1000 then
        \<lparr>res_status = RAY_MAX_STEPS, res_finalDir = ie_rayDir env, res_steps = i\<rparr>
      else if i \<ge> ie_maxSteps env then
        \<lparr>res_status = RAY_MAX_STEPS, res_finalDir = ie_rayDir env, res_steps = i\<rparr>
      else if g_r s < ie_rH env * 1.001 then
        \<lparr>res_status = RAY_CAPTURED, res_finalDir = ie_rayDir env, res_steps = i\<rparr>
      else if g_r s > ie_escapeRadius env then
        \<lparr>res_status = RAY_ESCAPED,
         res_finalDir = escapeDirection s (ie_E env) (ie_Lz env) (ie_Q env) (ie_M env) (ie_a env),
         res_steps = i\<rparr>
      else
        let h = adaptiveStep env s;
            s' = rk4Step s (ie_E env) (ie_Lz env) (ie_Q env) (ie_M env) (ie_a env) h;
            r = steppedRadius nan s h s'
        in if fl_less r 0 \<or> isNaN r then
             \<lparr>res_status = RAY_CAPTURED, res_finalDir = ie_rayDir env, res_steps = i + 1\<rparr>
           else integrateGeodesic_loop nan env (i + 1) s')"
  by pat_completeness auto
termination
  by (relation "measure (\<lambda>(nan, env, i, s). nat (1000 - i))") auto

declare integrateGeodesic_loop.simps [simp del]

definition integrateGeodesic ::
  "nan_steps \<Rightarrow> vec3 \<Rightarrow> vec3 \<Rightarrow> real \<Rightarrow> real \<Rightarrow> int \<Rightarrow> real \<Rightarrow> real \<Rightarrow> ray_result" where
  "integrateGeodesic nan camPos rayDir M a maxSteps escapeRadius stepSize =
     (let (s, E, Lz, Q) = initializeGeodesic camPos rayDir M a;
          rH = eventHorizonRadius_gl M a;
          rPh = photonSphereRadius_gl M a
      in integrateGeodesic_loop nan
           \<lparr>ie_E = E, ie_Lz = Lz, ie_Q = Q, ie_M = M, ie_a = a, ie_rH = rH, ie_rPh = rPh,
            ie_maxSteps = maxSteps, ie_escapeRadius = escapeRadius, ie_stepSize = stepSize,
            ie_rayDir = rayDir\<rparr> 0 s)"


subsection \<open>integrateGeodesicWithFeatures (fragment-shader.glsl)\<close>

text \<open>
  The uniforms that the loop reads to choose its step size. The colour accumulators
  \<^verbatim>\<open>diskColor\<close>, \<^verbatim>\<open>diskAlpha\<close>, \<^verbatim>\<open>jetColor\<close> and \<^verbatim>\<open>ergoColor\<close> (with \<^verbatim>\<open>prevTheta\<close> and
  \<^verbatim>\<open>prevR\<close>, which only they read) are written by the loop but never read by its
  conditions, by the step size or by \<^verbatim>\<open>rk4Step\<close>; they are not part of the model.
\<close>

record uniforms =
  u_showDisk :: bool
  u_diskInnerRadius :: real
  u_diskOuterRadius :: real
  u_diskThickness :: real
  u_showJets :: bool

record features_result = ray_result +
  res_minRadius :: real
  res_totalPhiChange :: real

definition featureStep :: "uniforms \<Rightarrow> integrator_env \<Rightarrow> geodesic \<Rightarrow> real" where
  "featureStep u env s =
     (let r = g_r s; theta = g_theta s; phi = g_phi s;
          currentPos = boyerLindquistToCartesian_gl (Vec3 r theta phi) (ie_a env);
          distToHorizon = r - ie_rH env;
          h = ie_stepSize env * clamp (distToHorizon / ie_rPh env) 0.01 1.0;
          h = (if \<bar>r - ie_rPh env\<bar> < ie_rPh env * 0.5 then h * 0.5 else h);
          h = (if u_showDisk u \<and> r \<ge> u_diskInnerRadius u * 0.9 \<and> r \<le> u_diskOuterRadius u * 1.1
               then let diskProximity = \<bar>theta - HALF_PI\<bar> / u_diskThickness u
                    in if diskProximity < 5 then h * max 0.2 (diskProximity / 5) else h
               else h);
          h = (if u_showJets u \<and> \<bar>vz currentPos\<bar> > ie_rH env * 2
               then let cylR = sqrt (vx currentPos * vx currentPos + vy currentPos * vy currentPos);
                        jetRadius = 0.5 * ie_M env + \<bar>vz currentPos\<bar> * 0.1
                    in if cylR < jetRadius * 2 then h * 0.7 else h
               else h)
      in h)"

text \<open>The update of \<^verbatim>\<open>totalPhiChange\<close> at the head of an iteration.\<close>

definition phiChange :: "real \<Rightarrow> real \<Rightarrow> real" where
  "phiChange phi prevPhi =
     (let dPhi = phi - prevPhi;
          dPhi = (if dPhi > PI then dPhi - TWO_PI else dPhi);
          dPhi = (if dPhi < - PI then dPhi + TWO_PI else dPhi)
      in \<bar>dPhi\<bar>)"

function integrateGeodesicWithFeatures_loop ::
  "nan_steps \<Rightarrow> uniforms \<Rightarrow> integrator_env \<Rightarrow> int \<Rightarrow> geodesic \<Rightarrow> real \<Rightarrow> real \<Rightarrow> real
     \<Rightarrow> features_result" where
  "integrateGeodesicWithFeatures_loop nan u env i s prevPhi minRadius totalPhiChange =
     (if \<not> i < 1000 then
        \<lparr>res_status = RAY_MAX_STEPS, res_finalDir = ie_rayDir env, res_steps = i,
         res_minRadius = minRadius, res_totalPhiChange = totalPhiChange\<rparr>
      else if i \<ge> ie_maxSteps env then
        \<lparr>res_status = RAY_MAX_STEPS, res_finalDir = ie_rayDir env, res_steps = i,
         res_minRadius = minRadius, res_totalPhiChange = totalPhiChange\<rparr>
      else
        let minRadius = min minRadius (g_r s);
            totalPhiChange = totalPhiChange + phiChange (g_phi s) prevPhi
        in if g_r s < ie_rH env * 1.001 then
             \<lparr>res_status = RAY_CAPTURED, res_finalDir = ie_rayDir env, res_steps = i,
              res_minRadius = minRadius, res_totalPhiChange = totalPhiChange\<rparr>
           else if g_r s > ie_escapeRadius env then
             \<lparr>res_status = RAY_ESCAPED,
              res_finalDir = escapeDirection s (ie_E env) (ie_Lz env) (ie_Q env) (ie_M env) (ie_a env),
              res_steps = i, res_minRadius = minRadius, res_totalPhiChange = totalPhiChange\<rparr>
           else
             let h = featureStep u env s;
                 s' = rk4Step s (ie_E env) (ie_Lz env) (ie_Q env) (ie_M env) (ie_a env) h;
                 r = steppedRadius nan s h s'
             in if fl_less r 0 \<or> isNaN r then
                  \<lparr>res_status = RAY_CAPTURED, res_finalDir = ie_rayDir env, res_steps = i + 1,
                   res_minRadius = minRadius, res_totalPhiChange = totalPhiChange\<rparr>
                else integrateGeodesicWithFeatures_loop nan u env (i + 1) s' (g_phi s)
                       minRadius totalPhiChange)"
  by pat_completeness auto
termination
  by (relation "measure (\<lambda>(nan, u, env, i, s, prevPhi, minRadius, totalPhiChange). nat (1000 - i))")
    auto

declare integrateGeodesicWithFeatures_loop.simps [simp del]

definition integrateGeodesicWithFeatures ::
  "nan_steps \<Rightarrow> uniforms \<Rightarrow> vec3 \<Rightarrow> vec3 \<Rightarrow> real \<Rightarrow> real \<Rightarrow> int \<Rightarrow> real \<Rightarrow> real
     \<Rightarrow> features_result" where
  "integrateGeodesicWithFeatures nan u camPos rayDir M a maxSteps escapeRadius stepSize =
     (let (s, E, Lz, Q) = initializeGeodesic camPos rayDir M a;
          rH = eventHorizonRadius_gl M a;
          rPh = photonSphereRadius_gl M a
      in integrateGeodesicWithFeatures_loop nan u
           \<lparr>ie_E = E, ie_Lz = Lz, ie_Q = Q, ie_M = M, ie_a = a, ie_rH = rH, ie_rPh = rPh,
            ie_maxSteps = maxSteps, ie_escapeRadius = escapeRadius, ie_stepSize = stepSize,
            ie_rayDir = rayDir\<rparr> 0 s (g_phi s) (g_r s) 0)"


subsection \<open>The points a ray passes through\<close>

text \<open>
  \<open>visits nan env hf s0 i s\<close>: the loop that starts at the point \<open>s0\<close> and takes its step
  size from \<open>hf\<close> (\<^const>\<open>adaptiveStep\<close> or \<^const>\<open>featureStep\<close>) begins iteration \<open>i\<close> at
  the point \<open>s\<close>. An iteration hands over to the next one exactly when none of its
  \<^verbatim>\<open>return\<close> statements fires. \<open>nextRadius\<close> is the \<^verbatim>\<open>r\<close> that the test after the step reads.
\<close>

definition nextPoint :: "integrator_env \<Rightarrow> (geodesic \<Rightarrow> real) \<Rightarrow> geodesic \<Rightarrow> geodesic" where
  "nextPoint env hf s = rk4Step s (ie_E env) (ie_Lz env) (ie_Q env) (ie_M env) (ie_a env) (hf s)"

definition nextRadius :: "nan_steps \<Rightarrow> integrator_env \<Rightarrow> (geodesic \<Rightarrow> real) \<Rightarrow> geodesic \<Rightarrow> glfloat" where
  "nextRadius nan env hf s = steppedRadius nan s (hf s) (nextPoint env hf s)"

inductive visits ::
  "nan_steps \<Rightarrow> integrator_env \<Rightarrow> (geodesic \<Rightarrow> real) \<Rightarrow> geodesic \<Rightarrow> int \<Rightarrow> geodesic \<Rightarrow> bool"
  for nan :: nan_steps and env :: integrator_env and hf :: "geodesic \<Rightarrow> real" and s0 :: geodesic
  where
  visits_start: "visits nan env hf s0 0 s0"
| visits_step:
    "visits nan env hf s0 i s \<Longrightarrow> i < 1000 \<Longrightarrow> i < ie_maxSteps env \<Longrightarrow>
     \<not> g_r s < ie_rH env * 1.001 \<Longrightarrow> \<not> g_r s > ie_escapeRadius env \<Longrightarrow>
     \<not> (fl_less (nextRadius nan env hf s) 0 \<or> isNaN (nextRadius nan env hf s)) \<Longrightarrow>
     visits nan env hf s0 (i + 1) (nextPoint env hf s)"

text \<open>
  The first point of a ray and the fixed data of its loop, as both integrators compute
  them from their arguments before the loop.
\<close>

definition ray_start :: "vec3 \<Rightarrow> vec3 \<Rightarrow> real \<Rightarrow> real \<Rightarrow> geodesic" where
  "ray_start camPos rayDir M a = fst (initializeGeodesic camPos rayDir M a)"

definition ray_env :: "vec3 \<Rightarrow> vec3 \<Rightarrow> real \<Rightarrow> real \<Rightarrow> int \<Rightarrow> real \<Rightarrow> real \<Rightarrow> integrator_env" where
  "ray_env camPos rayDir M a maxSteps escapeRadius stepSize =
     (let (s, E, Lz, Q) = initializeGeodesic camPos rayDir M a;
          rH = eventHorizonRadius_gl M a;
          rPh = photonSphereRadius_gl M a
      in \<lparr>ie_E = E, ie_Lz = Lz, ie_Q = Q, ie_M = M, ie_a = a, ie_rH = rH, ie_rPh = rPh,
          ie_maxSteps = maxSteps, ie_escapeRadius = escapeRadius, ie_stepSize = stepSize,
          ie_rayDir = rayDir\<rparr>)"

text \<open>The interval to which \<^verbatim>\<open>rk4Step\<close> clamps \<open>\<theta>\<close>.\<close>

definition in_theta_range :: "real \<Rightarrow> bool" where
  "in_theta_range theta = (0.001 \<le> theta \<and> theta \<le> PI - 0.001)"


text \<open>
  A sample ray, used to exercise the integrators: the camera sits on the \<open>x\<close> axis at
  distance 10 from a Schwarzschild hole of mass 1 and looks straight at it. This is the
  point at which \<^const>\<open>initializeGeodesic\<close> starts that ray.
\<close>

definition radial_start :: geodesic where
  "radial_start = \<lparr>g_r = 10, g_theta = pi / 2, g_phi = 0, g_pr = - 1, g_ptheta = 0\<rparr>"


section \<open>Construction and mutation of the parameters\<close>

lemma setParameters_ok:
  "0 < mass \<Longrightarrow> \<bar>spin\<bar> \<le> mass \<Longrightarrow>
   setParameters this mass spin = (None, this\<lparr>km_M := mass, km_a := spin, km_a2 := spin * spin\<rparr>)"
  by (simp add: setParameters_def)

lemma KerrMetric_new_ok:
  "0 < mass \<Longrightarrow> \<bar>spin\<bar> \<le> mass \<Longrightarrow>
   KerrMetric_new mass spin = Inr \<lparr>km_M = mass, km_a = spin, km_a2 = spin * spin\<rparr>"
  by (simp add: KerrMetric_new_def setParameters_def)

lemma KerrMetric_new_fields:
  assumes "KerrMetric_new mass spin = Inr this"
  shows "0 < mass \<and> \<bar>spin\<bar> \<le> mass \<and> km_M this = mass \<and> km_a this = spin \<and> km_a2 this = spin * spin"
  using assms by (auto simp: KerrMetric_new_def setParameters_def split: if_splits)

text \<open>
  C3. Whenever \<open>mass \<le> 0\<close> or \<open>|spin| > mass\<close>, \<^verbatim>\<open>setParameters\<close> throws and leaves the
  object exactly as it was, and the constructor throws too; nothing is clamped. Whenever
  \<open>mass > 0\<close> and \<open>|spin| \<le> mass\<close>, both succeed and store the given mass and spin
  unmodified (with \<open>a2 = spin * spin\<close>).
\<close>

theorem setParameters_validation:
  "(mass \<le> 0 \<or> \<bar>spin\<bar> > mass \<longrightarrow>
      (\<exists>e. setParameters this mass spin = (Some e, this)) \<and>
      (\<exists>e. KerrMetric_new mass spin = Inl e)) \<and>
   (0 < mass \<and> \<bar>spin\<bar> \<le> mass \<longrightarrow>
      (\<exists>this'. setParameters this mass spin = (None, this') \<and>
         km_M this' = mass \<and> km_a this' = spin \<and> km_a2 this' = spin * spin) \<and>
      (\<exists>k. KerrMetric_new mass spin = Inr k \<and>
         km_M k = mass \<and> km_a k = spin \<and> km_a2 k = spin * spin))"
  by (auto simp: setParameters_def KerrMetric_new_def)

theorem setParameters_validation_witness:
  "(\<exists>e. setParameters \<lparr>km_M = 1, km_a = 0, km_a2 = 0\<rparr> 0 0
          = (Some e, \<lparr>km_M = 1, km_a = 0, km_a2 = 0\<rparr>)) \<and>
   (\<exists>e. KerrMetric_new 1 (3 / 2) = Inl e) \<and>
   (\<exists>k. KerrMetric_new 1 (9 / 10) = Inr k \<and> km_M k = 1 \<and> km_a k = 9 / 10)"
proof -
  have bad1: "(0::real) \<le> 0 \<or> \<bar>0::real\<bar> > 0" by simp
  have bad2: "(1::real) \<le> 0 \<or> \<bar>3 / 2 :: real\<bar> > 1" by simp
  have good: "(0::real) < 1 \<and> \<bar>9 / 10 :: real\<bar> \<le> 1" by simp
  from setParameters_validation [of 0 0 "\<lparr>km_M = 1, km_a = 0, km_a2 = 0\<rparr>"] bad1
  have 1: "\<exists>e. setParameters \<lparr>km_M = 1, km_a = 0, km_a2 = 0\<rparr> 0 0
          = (Some e, \<lparr>km_M = 1, km_a = 0, km_a2 = 0\<rparr>)" by blast
  from setParameters_validation [of 1 "3 / 2" "\<lparr>km_M = 1, km_a = 0, km_a2 = 0\<rparr>"] bad2
  have 2: "\<exists>e. KerrMetric_new 1 (3 / 2) = Inl e" by blast
  from setParameters_validation [of 1 "9 / 10" "\<lparr>km_M = 1, km_a = 0, km_a2 = 0\<rparr>"] good
  have 3: "\<exists>k. KerrMetric_new 1 (9 / 10) = Inr k \<and> km_M k = 1 \<and> km_a k = 9 / 10" by blast
  from 1 2 3 show ?thesis by blast
qed


section \<open>The horizon is the outer root of Delta\<close>

lemma eventHorizonRadius_valid:
  assumes "0 < m" "\<bar>s\<bar> \<le> m" and k: "k = \<lparr>km_M = m, km_a = s, km_a2 = s * s\<rparr>"
  shows "eventHorizonRadius k = m + sqrt (m * m - s * s)"
    and "innerHorizonRadius k = m - sqrt (m * m - s * s)"
proof -
  have "s * s \<le> m * m"
    using abs_le_square_iff [of s m] assms(1,2) by (simp add: power2_eq_square)
  then show "eventHorizonRadius k = m + sqrt (m * m - s * s)"
    and "innerHorizonRadius k = m - sqrt (m * m - s * s)"
    by (simp_all add: eventHorizonRadius_def innerHorizonRadius_def k max_def)
qed

lemma delta_factor:
  assumes "0 < m" "\<bar>s\<bar> \<le> m" and k: "k = \<lparr>km_M = m, km_a = s, km_a2 = s * s\<rparr>"
  shows "delta k r = (r - eventHorizonRadius k) * (r - innerHorizonRadius k)"
proof -
  have le: "s * s \<le> m * m"
    using abs_le_square_iff [of s m] assms(1,2) by (simp add: power2_eq_square)
  define q where "q = sqrt (m * m - s * s)"
  have qq: "q * q = m * m - s * s"
    using le by (simp add: q_def)
  have "(r - (m + q)) * (r - (m - q)) = r * r - 2 * m * r + (m * m - q * q)"
    by (simp add: algebra_simps)
  also have "\<dots> = r * r - 2 * m * r + s * s"
    by (simp add: qq)
  finally show ?thesis
    using eventHorizonRadius_valid [OF assms] by (simp add: delta_def k q_def)
qed

text \<open>
  C10. For every \<open>M > 0\<close> and \<open>|a| \<le> M\<close> the object is constructed, \<open>\<Delta>\<close> vanishes at the
  event-horizon radius it returns, and \<open>\<Delta>(r) > 0\<close> for every \<open>r\<close> strictly greater than
  that radius.
\<close>

theorem delta_event_horizon:
  assumes "0 < m" and "\<bar>s\<bar> \<le> m"
  shows "\<exists>k. KerrMetric_new m s = Inr k \<and>
           delta k (eventHorizonRadius k) = 0 \<and>
           (\<forall>r. eventHorizonRadius k < r \<longrightarrow> 0 < delta k r)"
proof -
  define k where "k = \<lparr>km_M = m, km_a = s, km_a2 = s * s\<rparr>"
  have new: "KerrMetric_new m s = Inr k"
    using assms by (simp add: KerrMetric_new_ok k_def)
  have fac: "\<And>r. delta k r = (r - eventHorizonRadius k) * (r - innerHorizonRadius k)"
    using delta_factor [OF assms k_def] .
  have "s * s \<le> m * m"
    using abs_le_square_iff [of s m] assms by (simp add: power2_eq_square)
  then have "0 \<le> sqrt (m * m - s * s)"
    by simp
  then have inner: "innerHorizonRadius k \<le> eventHorizonRadius k"
    using eventHorizonRadius_valid [OF assms k_def] by simp
  have zero: "delta k (eventHorizonRadius k) = 0"
    by (simp add: fac)
  have pos: "0 < delta k r" if "eventHorizonRadius k < r" for r
    using that inner by (simp add: fac)
  from new zero pos show ?thesis by blast
qed

theorem delta_event_horizon_witness:
  "\<exists>k. KerrMetric_new 5 3 = Inr k \<and> eventHorizonRadius k = 9 \<and>
        delta k (eventHorizonRadius k) = 0 \<and> 0 < delta k 10"
proof -
  have h1: "(0::real) < 5" and h2: "\<bar>3::real\<bar> \<le> 5" by simp_all
  from delta_event_horizon [OF h1 h2] obtain k where
    k: "KerrMetric_new 5 3 = Inr k" "delta k (eventHorizonRadius k) = 0"
       "\<forall>r. eventHorizonRadius k < r \<longrightarrow> 0 < delta k r" by blast
  have kf: "km_M k = 5" "km_a2 k = 3 * 3"
    using KerrMetric_new_fields [OF k(1)] by simp_all
  have "sqrt (16::real) = 4"
    using real_sqrt_abs [of 4] by simp
  then have eh: "eventHorizonRadius k = 9"
    by (simp add: eventHorizonRadius_def kf)
  with k show ?thesis by auto
qed


section \<open>Doppler factor of the disk\<close>

lemma sqrt_4: "sqrt (4::real) = 2"
  using real_sqrt_abs [of 2] by simp

lemma sqrt_16: "sqrt (16::real) = 4"
  using real_sqrt_abs [of 4] by simp

lemma doppler_approaching:
  fixes v :: real
  assumes "0 < v" "v < 1"
  shows "1 < 1 / (1 / sqrt (1 - v * v) * (1 - v * 1))"
proof -
  have "(1 - v)\<^sup>2 < 1 - v * v"
    using assms by (simp add: power2_eq_square algebra_simps)
  then have "1 - v < sqrt (1 - v * v)"
    using assms by (intro real_less_rsqrt)
  moreover have "1 / (1 / sqrt (1 - v * v) * (1 - v * 1)) = sqrt (1 - v * v) / (1 - v)"
    by simp
  ultimately show ?thesis
    using assms by simp
qed

lemma doppler_receding:
  fixes v :: real
  assumes "0 < v" "v < 1"
  shows "1 / (1 / sqrt (1 - v * v) * (1 - v * (- 1))) < 1"
proof -
  have "0 < 2 * v * (1 + v)"
    using assms by simp
  then have "1 - v * v < (1 + v)\<^sup>2"
    by (simp add: power2_eq_square algebra_simps)
  then have "sqrt (1 - v * v) < 1 + v"
    using assms by (intro real_less_lsqrt) simp_all
  moreover have "1 / (1 / sqrt (1 - v * v) * (1 - v * (- 1))) = sqrt (1 - v * v) / (1 + v)"
    by simp
  ultimately show ?thesis
    using assms by simp
qed

text \<open>
  C7. At every radius where the orbital velocity \<open>v\<close> satisfies \<open>0 < v < 1\<close>, the Doppler
  factor at view angle 0 (directly approaching) is strictly greater than 1 and the Doppler
  factor at view angle \<open>\<pi>\<close> (directly receding) is strictly less than 1.
\<close>

theorem dopplerFactor_approaching_receding:
  assumes "0 < orbitalVelocity this r" and "orbitalVelocity this r < 1"
  shows "1 < dopplerFactor this r 0 \<and> dopplerFactor this r pi < 1"
  using doppler_approaching [OF assms] doppler_receding [OF assms]
  by (simp add: dopplerFactor_def Let_def)

lemma orbitalVelocity_example:
  "orbitalVelocity (AccretionDisk_new 1 0 (Some 6) 15 10000000) 4 = 0.999"
  by (simp add: orbitalVelocity_def keplerianOmega_def AccretionDisk_new_def Let_def
      sqrt_4 sqrt_16 real_sqrt_divide)

theorem dopplerFactor_approaching_receding_witness:
  "0 < orbitalVelocity (AccretionDisk_new 1 0 (Some 6) 15 10000000) 4 \<and>
   orbitalVelocity (AccretionDisk_new 1 0 (Some 6) 15 10000000) 4 < 1 \<and>
   1 < dopplerFactor (AccretionDisk_new 1 0 (Some 6) 15 10000000) 4 0 \<and>
   dopplerFactor (AccretionDisk_new 1 0 (Some 6) 15 10000000) 4 pi < 1"
proof -
  have v: "0 < orbitalVelocity (AccretionDisk_new 1 0 (Some 6) 15 10000000) 4"
          "orbitalVelocity (AccretionDisk_new 1 0 (Some 6) 15 10000000) 4 < 1"
    by (simp_all add: orbitalVelocity_example)
  from dopplerFactor_approaching_receding [OF v] v show ?thesis by simp
qed


section \<open>Termination and outcomes of the integrators\<close>

lemma steppedRadius_test:
  "(fl_less (steppedRadius nan s h s') 0 \<or> isNaN (steppedRadius nan s h s'))
     = (nan s h \<or> g_r s' < 0)"
  by (simp add: steppedRadius_def fl_less_def isNaN_def fl_noteq_def)

lemma integrateGeodesic_loop_bounds:
  "0 \<le> i \<Longrightarrow> i \<le> 1000 \<Longrightarrow>
   res_status (integrateGeodesic_loop nan env i s) \<in> {RAY_CAPTURED, RAY_ESCAPED, RAY_MAX_STEPS} \<and>
   i \<le> res_steps (integrateGeodesic_loop nan env i s) \<and>
   res_steps (integrateGeodesic_loop nan env i s) \<le> 1000"
proof (induction nan env i s rule: integrateGeodesic_loop.induct)
  case (1 nan env i s)
  show ?case
  proof (cases "i < 1000 \<and> i < ie_maxSteps env \<and> \<not> g_r s < ie_rH env * 1.001
                \<and> \<not> g_r s > ie_escapeRadius env")
    case False
    then show ?thesis
      using "1.prems" by (subst (1 2 3) integrateGeodesic_loop.simps) auto
  next
    case True
    define s' where "s' = rk4Step s (ie_E env) (ie_Lz env) (ie_Q env) (ie_M env) (ie_a env)
                            (adaptiveStep env s)"
    define r' where "r' = steppedRadius nan s (adaptiveStep env s) s'"
    show ?thesis
    proof (cases "fl_less r' 0 \<or> isNaN r'")
      case stop: True
      have "integrateGeodesic_loop nan env i s =
              \<lparr>res_status = RAY_CAPTURED, res_finalDir = ie_rayDir env, res_steps = i + 1\<rparr>"
        using True stop by (subst integrateGeodesic_loop.simps) (simp add: s'_def r'_def Let_def)
      then show ?thesis using True by simp
    next
      case go: False
      have eq: "integrateGeodesic_loop nan env i s = integrateGeodesic_loop nan env (i + 1) s'"
        using True go by (subst integrateGeodesic_loop.simps) (simp add: s'_def r'_def Let_def)
      have "res_status (integrateGeodesic_loop nan env (i + 1) s')
              \<in> {RAY_CAPTURED, RAY_ESCAPED, RAY_MAX_STEPS} \<and>
            i + 1 \<le> res_steps (integrateGeodesic_loop nan env (i + 1) s') \<and>
            res_steps (integrateGeodesic_loop nan env (i + 1) s') \<le> 1000"
        using "1.IH" [of "adaptiveStep env s" s' r'] True go "1.prems"
        by (simp add: s'_def r'_def)
      then show ?thesis by (simp add: eq)
    qed
  qed
qed

lemma integrateGeodesicWithFeatures_loop_bounds:
  "0 \<le> i \<Longrightarrow> i \<le> 1000 \<Longrightarrow>
   res_status (integrateGeodesicWithFeatures_loop nan u env i s p m t)
     \<in> {RAY_CAPTURED, RAY_ESCAPED, RAY_MAX_STEPS} \<and>
   i \<le> res_steps (integrateGeodesicWithFeatures_loop nan u env i s p m t) \<and>
   res_steps (integrateGeodesicWithFeatures_loop nan u env i s p m t) \<le> 1000"
proof (induction nan u env i s p m t rule: integrateGeodesicWithFeatures_loop.induct)
  case (1 nan u env i s p m t)
  show ?case
  proof (cases "i < 1000 \<and> i < ie_maxSteps env \<and> \<not> g_r s < ie_rH env * 1.001
                \<and> \<not> g_r s > ie_escapeRadius env")
    case False
    then show ?thesis
      using "1.prems"
      by (subst (1 2 3) integrateGeodesicWithFeatures_loop.simps) (auto simp: Let_def)
  next
    case True
    define s' where "s' = rk4Step s (ie_E env) (ie_Lz env) (ie_Q env) (ie_M env) (ie_a env)
                            (featureStep u env s)"
    define r' where "r' = steppedRadius nan s (featureStep u env s) s'"
    define m' where "m' = min m (g_r s)"
    define t' where "t' = t + phiChange (g_phi s) p"
    show ?thesis
    proof (cases "fl_less r' 0 \<or> isNaN r'")
      case stop: True
      have "integrateGeodesicWithFeatures_loop nan u env i s p m t =
              \<lparr>res_status = RAY_CAPTURED, res_finalDir = ie_rayDir env, res_steps = i + 1,
               res_minRadius = m', res_totalPhiChange = t'\<rparr>"
        using True stop
        by (subst integrateGeodesicWithFeatures_loop.simps)
          (simp add: s'_def r'_def m'_def t'_def Let_def)
      then show ?thesis using True by simp
    next
      case go: False
      have eq: "integrateGeodesicWithFeatures_loop nan u env i s p m t =
                integrateGeodesicWithFeatures_loop nan u env (i + 1) s' (g_phi s) m' t'"
        using True go
        by (subst integrateGeodesicWithFeatures_loop.simps)
          (simp add: s'_def r'_def m'_def t'_def Let_def)
      have "res_status (integrateGeodesicWithFeatures_loop nan u env (i + 1) s' (g_phi s) m' t')
              \<in> {RAY_CAPTURED, RAY_ESCAPED, RAY_MAX_STEPS} \<and>
            i + 1 \<le> res_steps (integrateGeodesicWithFeatures_loop nan u env (i + 1) s' (g_phi s) m' t') \<and>
            res_steps (integrateGeodesicWithFeatures_loop nan u env (i + 1) s' (g_phi s) m' t') \<le> 1000"
        using "1.IH" [of m' t' "featureStep u env s" s' r'] True go "1.prems"
        by (simp add: s'_def r'_def m'_def t'_def)
      then show ?thesis by (simp add: eq)
    qed
  qed
qed

text \<open>
  C1. For every camera position, ray direction, mass, spin, \<^verbatim>\<open>maxSteps\<close>, escape radius
  and step size (and, for the fragment shader's loop, every setting of the uniforms), both
  integrators return \<^verbatim>\<open>RAY_CAPTURED\<close>, \<^verbatim>\<open>RAY_ESCAPED\<close> or \<^verbatim>\<open>RAY_MAX_STEPS\<close>, never
  \<^verbatim>\<open>RAY_ACTIVE\<close>, after at most 1000 calls of \<^verbatim>\<open>rk4Step\<close>, whatever \<^verbatim>\<open>maxSteps\<close> is, and
  at whichever steps \<^verbatim>\<open>r\<close> turns into NaN.
\<close>

theorem integrators_terminate_within_1000_steps:
  "res_status (integrateGeodesic nan camPos rayDir M a maxSteps escapeRadius stepSize)
     \<in> {RAY_CAPTURED, RAY_ESCAPED, RAY_MAX_STEPS} \<and>
   res_status (integrateGeodesic nan camPos rayDir M a maxSteps escapeRadius stepSize) \<noteq> RAY_ACTIVE \<and>
   0 \<le> res_steps (integrateGeodesic nan camPos rayDir M a maxSteps escapeRadius stepSize) \<and>
   res_steps (integrateGeodesic nan camPos rayDir M a maxSteps escapeRadius stepSize) \<le> 1000 \<and>
   res_status (integrateGeodesicWithFeatures nan u camPos rayDir M a maxSteps escapeRadius stepSize)
     \<in> {RAY_CAPTURED, RAY_ESCAPED, RAY_MAX_STEPS} \<and>
   res_status (integrateGeodesicWithFeatures nan u camPos rayDir M a maxSteps escapeRadius stepSize)
     \<noteq> RAY_ACTIVE \<and>
   0 \<le> res_steps (integrateGeodesicWithFeatures nan u camPos rayDir M a maxSteps escapeRadius stepSize) \<and>
   res_steps (integrateGeodesicWithFeatures nan u camPos rayDir M a maxSteps escapeRadius stepSize) \<le> 1000"
proof -
  obtain s E Lz Q where init: "initializeGeodesic camPos rayDir M a = (s, E, Lz, Q)"
    by (metis prod_cases4)
  define env where "env = \<lparr>ie_E = E, ie_Lz = Lz, ie_Q = Q, ie_M = M, ie_a = a,
      ie_rH = eventHorizonRadius_gl M a, ie_rPh = photonSphereRadius_gl M a,
      ie_maxSteps = maxSteps, ie_escapeRadius = escapeRadius, ie_stepSize = stepSize,
      ie_rayDir = rayDir\<rparr>"
  have 1: "integrateGeodesic nan camPos rayDir M a maxSteps escapeRadius stepSize
             = integrateGeodesic_loop nan env 0 s"
    by (simp add: integrateGeodesic_def init env_def)
  have 2: "integrateGeodesicWithFeatures nan u camPos rayDir M a maxSteps escapeRadius stepSize
             = integrateGeodesicWithFeatures_loop nan u env 0 s (g_phi s) (g_r s) 0"
    by (simp add: integrateGeodesicWithFeatures_def init env_def)
  have a: "res_status (integrateGeodesic_loop nan env 0 s)
             \<in> {RAY_CAPTURED, RAY_ESCAPED, RAY_MAX_STEPS} \<and>
           0 \<le> res_steps (integrateGeodesic_loop nan env 0 s) \<and>
           res_steps (integrateGeodesic_loop nan env 0 s) \<le> 1000"
    using integrateGeodesic_loop_bounds [of 0 nan env s] by simp
  have b: "res_status (integrateGeodesicWithFeatures_loop nan u env 0 s (g_phi s) (g_r s) 0)
             \<in> {RAY_CAPTURED, RAY_ESCAPED, RAY_MAX_STEPS} \<and>
           0 \<le> res_steps (integrateGeodesicWithFeatures_loop nan u env 0 s (g_phi s) (g_r s) 0) \<and>
           res_steps (integrateGeodesicWithFeatures_loop nan u env 0 s (g_phi s) (g_r s) 0) \<le> 1000"
    using integrateGeodesicWithFeatures_loop_bounds [of 0 nan u env s "g_phi s" "g_r s" 0] by simp
  from a b show ?thesis
    unfolding 1 2 by auto
qed

theorem integrators_terminate_within_1000_steps_witness:
  "res_status (integrateGeodesic no_nan (Vec3 10 0 0) (Vec3 (- 1) 0 0) 1 0 5000 50 (1 / 10))
     \<noteq> RAY_ACTIVE \<and>
   res_steps (integrateGeodesic no_nan (Vec3 10 0 0) (Vec3 (- 1) 0 0) 1 0 5000 50 (1 / 10))
     \<le> 1000 \<and>
   res_status (integrateGeodesicWithFeatures no_nan
       \<lparr>u_showDisk = True, u_diskInnerRadius = 6, u_diskOuterRadius = 15,
        u_diskThickness = 1 / 10, u_showJets = True\<rparr>
       (Vec3 10 0 0) (Vec3 (- 1) 0 0) 1 0 5000 50 (1 / 10)) \<noteq> RAY_ACTIVE \<and>
   res_steps (integrateGeodesicWithFeatures no_nan
       \<lparr>u_showDisk = True, u_diskInnerRadius = 6, u_diskOuterRadius = 15,
        u_diskThickness = 1 / 10, u_showJets = True\<rparr>
       (Vec3 10 0 0) (Vec3 (- 1) 0 0) 1 0 5000 50 (1 / 10)) \<le> 1000"
  using integrators_terminate_within_1000_steps
    [of no_nan "Vec3 10 0 0" "Vec3 (- 1) 0 0" 1 0 5000 50 "1 / 10"
        "\<lparr>u_showDisk = True, u_diskInnerRadius = 6, u_diskOuterRadius = 15,
          u_diskThickness = 1 / 10, u_showJets = True\<rparr>"]
  by blast


section \<open>The turning-point check of rk4Step\<close>

text \<open>
  C5. \<^verbatim>\<open>rk4Step\<close> ends with the turning-point check, applied to the state that the RK4
  update (with its final clamp of \<open>\<theta>\<close>) has produced. The check leaves \<open>r\<close>, \<open>\<theta>\<close> and \<open>\<phi>\<close>
  as they are, replaces \<open>p\<^sub>r\<close> by \<open>- p\<^sub>r\<close> exactly when \<open>R\<close> at the updated state is negative,
  and replaces \<open>p\<^sub>\<theta>\<close> by \<open>- p\<^sub>\<theta>\<close> exactly when \<open>\<Theta>\<close> at the updated state is negative. It is a
  total function of the state: there is no error outcome.
\<close>

theorem rk4Step_turning_points:
  "g_r (rk4Step s E Lz Q M a h) = g_r (rk4_update s E Lz Q M a h) \<and>
   g_theta (rk4Step s E Lz Q M a h) = g_theta (rk4_update s E Lz Q M a h) \<and>
   g_phi (rk4Step s E Lz Q M a h) = g_phi (rk4_update s E Lz Q M a h) \<and>
   g_pr (rk4Step s E Lz Q M a h) =
     (if R_potential (g_r (rk4_update s E Lz Q M a h)) E Lz Q M a < 0
      then - g_pr (rk4_update s E Lz Q M a h) else g_pr (rk4_update s E Lz Q M a h)) \<and>
   g_ptheta (rk4Step s E Lz Q M a h) =
     (if Theta_potential (g_theta (rk4_update s E Lz Q M a h)) E Lz Q a < 0
      then - g_ptheta (rk4_update s E Lz Q M a h) else g_ptheta (rk4_update s E Lz Q M a h))"
  by (simp add: rk4Step_def turningPoints_def Let_def)


section \<open>Captured as the fail-safe outcome\<close>

lemma integrateGeodesic_as_loop:
  "integrateGeodesic nan camPos rayDir M a maxSteps escapeRadius stepSize =
   integrateGeodesic_loop nan (ray_env camPos rayDir M a maxSteps escapeRadius stepSize) 0
     (ray_start camPos rayDir M a)"
  by (simp add: integrateGeodesic_def ray_env_def ray_start_def case_prod_beta Let_def)

lemma integrateGeodesicWithFeatures_as_loop:
  "integrateGeodesicWithFeatures nan u camPos rayDir M a maxSteps escapeRadius stepSize =
   integrateGeodesicWithFeatures_loop nan u
     (ray_env camPos rayDir M a maxSteps escapeRadius stepSize) 0
     (ray_start camPos rayDir M a) (g_phi (ray_start camPos rayDir M a))
     (g_r (ray_start camPos rayDir M a)) 0"
  by (simp add: integrateGeodesicWithFeatures_def ray_env_def ray_start_def case_prod_beta Let_def)

lemma ray_env_fields:
  "ie_M (ray_env camPos rayDir M a maxSteps escapeRadius stepSize) = M"
  "ie_a (ray_env camPos rayDir M a maxSteps escapeRadius stepSize) = a"
  "ie_rH (ray_env camPos rayDir M a maxSteps escapeRadius stepSize) = eventHorizonRadius_gl M a"
  "ie_rPh (ray_env camPos rayDir M a maxSteps escapeRadius stepSize) = photonSphereRadius_gl M a"
  "ie_maxSteps (ray_env camPos rayDir M a maxSteps escapeRadius stepSize) = maxSteps"
  "ie_escapeRadius (ray_env camPos rayDir M a maxSteps escapeRadius stepSize) = escapeRadius"
  "ie_stepSize (ray_env camPos rayDir M a maxSteps escapeRadius stepSize) = stepSize"
  "ie_rayDir (ray_env camPos rayDir M a maxSteps escapeRadius stepSize) = rayDir"
  by (simp_all add: ray_env_def case_prod_beta Let_def)

lemma nextRadius_test:
  "(fl_less (nextRadius nan env hf s) 0 \<or> isNaN (nextRadius nan env hf s))
     = (nan s (hf s) \<or> g_r (nextPoint env hf s) < 0)"
  by (simp add: nextRadius_def steppedRadius_test)

lemma loop_budget:
  "\<not> (i < 1000 \<and> i < ie_maxSteps env) \<Longrightarrow>
   integrateGeodesic_loop nan env i s =
     \<lparr>res_status = RAY_MAX_STEPS, res_finalDir = ie_rayDir env, res_steps = i\<rparr>"
  by (subst integrateGeodesic_loop.simps) auto

lemma loop_horizon:
  "i < 1000 \<Longrightarrow> i < ie_maxSteps env \<Longrightarrow> g_r s < ie_rH env * 1.001 \<Longrightarrow>
   integrateGeodesic_loop nan env i s =
     \<lparr>res_status = RAY_CAPTURED, res_finalDir = ie_rayDir env, res_steps = i\<rparr>"
  by (subst integrateGeodesic_loop.simps) simp

lemma loop_safety:
  "i < 1000 \<Longrightarrow> i < ie_maxSteps env \<Longrightarrow> \<not> g_r s < ie_rH env * 1.001 \<Longrightarrow>
   \<not> g_r s > ie_escapeRadius env \<Longrightarrow>
   fl_less (nextRadius nan env (adaptiveStep env) s) 0 \<or>
     isNaN (nextRadius nan env (adaptiveStep env) s) \<Longrightarrow>
   integrateGeodesic_loop nan env i s =
     \<lparr>res_status = RAY_CAPTURED, res_finalDir = ie_rayDir env, res_steps = i + 1\<rparr>"
  by (subst integrateGeodesic_loop.simps) (simp add: nextRadius_def nextPoint_def Let_def)

lemma loop_continue:
  "i < 1000 \<Longrightarrow> i < ie_maxSteps env \<Longrightarrow> \<not> g_r s < ie_rH env * 1.001 \<Longrightarrow>
   \<not> g_r s > ie_escapeRadius env \<Longrightarrow>
   \<not> (fl_less (nextRadius nan env (adaptiveStep env) s) 0 \<or>
       isNaN (nextRadius nan env (adaptiveStep env) s)) \<Longrightarrow>
   integrateGeodesic_loop nan env i s =
     integrateGeodesic_loop nan env (i + 1) (nextPoint env (adaptiveStep env) s)"
  by (subst integrateGeodesic_loop.simps) (simp add: nextRadius_def nextPoint_def Let_def)

lemma visits_loop:
  "visits nan env (adaptiveStep env) s0 i s \<Longrightarrow>
   integrateGeodesic_loop nan env 0 s0 = integrateGeodesic_loop nan env i s"
proof (induction rule: visits.induct)
  case visits_start
  show ?case by simp
next
  case (visits_step i s)
  then show ?case by (simp add: loop_continue)
qed

lemma loopF_budget:
  "\<not> (i < 1000 \<and> i < ie_maxSteps env) \<Longrightarrow>
   integrateGeodesicWithFeatures_loop nan u env i s p m t =
     \<lparr>res_status = RAY_MAX_STEPS, res_finalDir = ie_rayDir env, res_steps = i,
      res_minRadius = m, res_totalPhiChange = t\<rparr>"
  by (subst integrateGeodesicWithFeatures_loop.simps) auto

lemma loopF_horizon:
  "i < 1000 \<Longrightarrow> i < ie_maxSteps env \<Longrightarrow> g_r s < ie_rH env * 1.001 \<Longrightarrow>
   integrateGeodesicWithFeatures_loop nan u env i s p m t =
     \<lparr>res_status = RAY_CAPTURED, res_finalDir = ie_rayDir env, res_steps = i,
      res_minRadius = min m (g_r s), res_totalPhiChange = t + phiChange (g_phi s) p\<rparr>"
  by (subst integrateGeodesicWithFeatures_loop.simps) (simp add: Let_def)

lemma loopF_safety:
  "i < 1000 \<Longrightarrow> i < ie_maxSteps env \<Longrightarrow> \<not> g_r s < ie_rH env * 1.001 \<Longrightarrow>
   \<not> g_r s > ie_escapeRadius env \<Longrightarrow>
   fl_less (nextRadius nan env (featureStep u env) s) 0 \<or>
     isNaN (nextRadius nan env (featureStep u env) s) \<Longrightarrow>
   integrateGeodesicWithFeatures_loop nan u env i s p m t =
     \<lparr>res_status = RAY_CAPTURED, res_finalDir = ie_rayDir env, res_steps = i + 1,
      res_minRadius = min m (g_r s), res_totalPhiChange = t + phiChange (g_phi s) p\<rparr>"
  by (subst integrateGeodesicWithFeatures_loop.simps)
    (simp add: nextRadius_def nextPoint_def Let_def)

lemma loopF_continue:
  "i < 1000 \<Longrightarrow> i < ie_maxSteps env \<Longrightarrow> \<not> g_r s < ie_rH env * 1.001 \<Longrightarrow>
   \<not> g_r s > ie_escapeRadius env \<Longrightarrow>
   \<not> (fl_less (nextRadius nan env (featureStep u env) s) 0 \<or>
       isNaN (nextRadius nan env (featureStep u env) s)) \<Longrightarrow>
   integrateGeodesicWithFeatures_loop nan u env i s p m t =
   integrateGeodesicWithFeatures_loop nan u env (i + 1) (nextPoint env (featureStep u env) s)
     (g_phi s) (min m (g_r s)) (t + phiChange (g_phi s) p)"
  by (subst integrateGeodesicWithFeatures_loop.simps)
    (simp add: nextRadius_def nextPoint_def Let_def)

lemma visits_loopF:
  "visits nan env (featureStep u env) s0 i s \<Longrightarrow>
   \<exists>p' m' t'. integrateGeodesicWithFeatures_loop nan u env 0 s0 p m t =
               integrateGeodesicWithFeatures_loop nan u env i s p' m' t'"
proof (induction rule: visits.induct)
  case visits_start
  show ?case by blast
next
  case (visits_step i s)
  then obtain p' m' t' where
    "integrateGeodesicWithFeatures_loop nan u env 0 s0 p m t =
     integrateGeodesicWithFeatures_loop nan u env i s p' m' t'" by blast
  also have "\<dots> = integrateGeodesicWithFeatures_loop nan u env (i + 1)
       (nextPoint env (featureStep u env) s)
       (g_phi s) (min m' (g_r s)) (t' + phiChange (g_phi s) p')"
    using visits_step.hyps by (intro loopF_continue) simp_all
  finally show ?case by blast
qed


subsection \<open>The sample ray\<close>

lemma pi_half_bounds:
  "1 / 1000 \<le> pi / 2" "pi / 2 \<le> PI - 1 / 1000" "1 / 100 \<le> pi / 2" "pi / 2 \<le> PI - 1 / 100"
  using pi_ge_two pi_half_less_two by (simp_all add: PI_def)

lemma clamp_pi_half:
  "clamp (pi / 2) (1 / 1000) (PI - 1 / 1000) = pi / 2"
  "clamp (pi / 2) (1 / 100) (PI - 1 / 100) = pi / 2"
  using pi_half_bounds by (simp_all add: clamp_def)

lemma sqrt_100: "sqrt (100::real) = 10"
  using real_sqrt_abs [of 10] by simp

lemma sqrt_10000: "sqrt (10000::real) = 100"
  using real_sqrt_abs [of 100] by simp

lemma rk4_k_radial:
  "rk4_k (r, pi / 2, pr, 0) 1 0 0 1 0 =
     (Vec3 (pr * (r * r)) 0 0, 2 * r * r * r / (r * r) / (r * r), 0)"
  by (simp add: rk4_k_def geodesicDerivatives_def momentumDerivatives_def Let_def)

lemmas rk4_unfold =
  rk4Step_def turningPoints_def rk4_update_def rk4_k1_def rk4_k2_def rk4_k3_def rk4_k4_def
  rk4_stage2_def rk4_stage3_def rk4_stage4_def rk4_stage_def

lemma rk4Step_radial_1:
  "g_r (rk4Step radial_start 1 0 0 1 0 1) = - 9504209357740 / 213"
  by (simp add: rk4_unfold rk4_k_radial clamp_pi_half radial_start_def Let_def)

lemma rk4Step_radial_17:
  "g_r (rk4Step radial_start 1 0 0 1 0 (17 / 100)) =
     238327284844866529264693697524708085953981 / 144683845632000000000000000000000000000000"
  by (simp add: rk4_unfold rk4_k_radial clamp_pi_half radial_start_def Let_def)

lemma cartesianToSpherical_radial: "cartesianToSpherical (Vec3 10 0 0) = Vec3 10 (pi / 2) 0"
  by (simp add: cartesianToSpherical_def length_v_def sqrt_100 EPSILON_def clamp_def atan2_def Let_def)

lemma initializeGeodesic_radial:
  "initializeGeodesic (Vec3 10 0 0) (Vec3 (- 1) 0 0) 1 0 = (radial_start, 1, 0, 0)"
  by (simp add: initializeGeodesic_def cartesianToBoyerLindquist_gl_def cartesianToSpherical_radial
      clamp_pi_half normalize_def length_v_def cross_def dot_def sqrt_100 sqrt_10000 EPSILON_def
      computeConservedQuantities_def sigma_gl_def R_potential_def Theta_potential_def safeSqrt_def
      radial_start_def Let_def)

lemma ray_start_radial: "ray_start (Vec3 10 0 0) (Vec3 (- 1) 0 0) 1 0 = radial_start"
  by (simp add: ray_start_def initializeGeodesic_radial)

lemma ray_env_radial:
  "ray_env (Vec3 10 0 0) (Vec3 (- 1) 0 0) 1 0 maxSteps escapeRadius stepSize =
     \<lparr>ie_E = 1, ie_Lz = 0, ie_Q = 0, ie_M = 1, ie_a = 0, ie_rH = 2, ie_rPh = 3,
      ie_maxSteps = maxSteps, ie_escapeRadius = escapeRadius, ie_stepSize = stepSize,
      ie_rayDir = Vec3 (- 1) 0 0\<rparr>"
  by (simp add: ray_env_def initializeGeodesic_radial eventHorizonRadius_gl_def safeSqrt_def
      photonSphereRadius_gl_def EPSILON_def)

lemma adaptiveStep_radial:
  "adaptiveStep (ray_env (Vec3 10 0 0) (Vec3 (- 1) 0 0) 1 0 maxSteps escapeRadius stepSize)
     radial_start = stepSize"
  by (simp add: ray_env_radial adaptiveStep_def radial_start_def clamp_def Let_def)

lemma featureStep_radial:
  "featureStep \<lparr>u_showDisk = False, u_diskInnerRadius = 6, u_diskOuterRadius = 15,
                u_diskThickness = 1 / 10, u_showJets = False\<rparr>
     (ray_env (Vec3 10 0 0) (Vec3 (- 1) 0 0) 1 0 maxSteps escapeRadius stepSize)
     radial_start = stepSize"
  by (simp add: ray_env_radial featureStep_def radial_start_def clamp_def Let_def)

lemma nextPoint_radial:
  "nextPoint (ray_env (Vec3 10 0 0) (Vec3 (- 1) 0 0) 1 0 maxSteps escapeRadius stepSize) hf
     radial_start = rk4Step radial_start 1 0 0 1 0 (hf radial_start)"
  by (simp add: nextPoint_def ray_env_radial)

subsection \<open>The claim and its correction\<close>

text \<open>
  C4 (as amended). While a ray is being integrated, at any iteration \<open>i\<close> that the loop
  enters with its step budget not exhausted (\<open>i < 1000\<close> and \<open>i < maxSteps\<close>): if \<open>r\<close> is
  below \<open>1.001\<close> times the horizon radius the ray ends as Captured; and if the RK4 step of
  that iteration is taken and leaves \<open>r\<close> negative or NaN (the test
  \<^verbatim>\<open>r < 0.0 || r != r\<close>), the ray ends as Captured. When the budget is exhausted
  (\<open>i \<ge> 1000\<close> or \<open>i \<ge> maxSteps\<close>), the ray ends as \<^verbatim>\<open>RAY_MAX_STEPS\<close> whatever \<open>r\<close> is. This
  holds for \<^verbatim>\<open>integrateGeodesic\<close> and for \<^verbatim>\<open>integrateGeodesicWithFeatures\<close>, at whichever
  steps NaN arises; both are total functions, so no error is raised.
\<close>

theorem captured_fail_safe:
  assumes "env = ray_env camPos rayDir M a maxSteps escapeRadius stepSize"
    and "s0 = ray_start camPos rayDir M a"
  shows
    "(visits nan env (adaptiveStep env) s0 i s \<longrightarrow>
        (i < 1000 \<and> i < maxSteps \<and> g_r s < eventHorizonRadius_gl M a * 1.001 \<longrightarrow>
           res_status (integrateGeodesic nan camPos rayDir M a maxSteps escapeRadius stepSize)
             = RAY_CAPTURED) \<and>
        (i < 1000 \<and> i < maxSteps \<and>
         \<not> g_r s < eventHorizonRadius_gl M a * 1.001 \<and> \<not> g_r s > escapeRadius \<and>
         (fl_less (nextRadius nan env (adaptiveStep env) s) 0 \<or>
          isNaN (nextRadius nan env (adaptiveStep env) s)) \<longrightarrow>
           res_status (integrateGeodesic nan camPos rayDir M a maxSteps escapeRadius stepSize)
             = RAY_CAPTURED) \<and>
        (\<not> (i < 1000 \<and> i < maxSteps) \<longrightarrow>
           res_status (integrateGeodesic nan camPos rayDir M a maxSteps escapeRadius stepSize)
             = RAY_MAX_STEPS)) \<and>
     (visits nan env (featureStep u env) s0 i s \<longrightarrow>
        (i < 1000 \<and> i < maxSteps \<and> g_r s < eventHorizonRadius_gl M a * 1.001 \<longrightarrow>
           res_status (integrateGeodesicWithFeatures nan u camPos rayDir M a maxSteps escapeRadius
                         stepSize) = RAY_CAPTURED) \<and>
        (i < 1000 \<and> i < maxSteps \<and>
         \<not> g_r s < eventHorizonRadius_gl M a * 1.001 \<and> \<not> g_r s > escapeRadius \<and>
         (fl_less (nextRadius nan env (featureStep u env) s) 0 \<or>
          isNaN (nextRadius nan env (featureStep u env) s)) \<longrightarrow>
           res_status (integrateGeodesicWithFeatures nan u camPos rayDir M a maxSteps escapeRadius
                         stepSize) = RAY_CAPTURED) \<and>
        (\<not> (i < 1000 \<and> i < maxSteps) \<longrightarrow>
           res_status (integrateGeodesicWithFeatures nan u camPos rayDir M a maxSteps escapeRadius
                         stepSize) = RAY_MAX_STEPS))"
proof -
  have f: "ie_rH env = eventHorizonRadius_gl M a" "ie_maxSteps env = maxSteps"
    "ie_escapeRadius env = escapeRadius"
    by (simp_all add: assms(1) ray_env_fields)
  have plain: "res_status (integrateGeodesic nan camPos rayDir M a maxSteps escapeRadius stepSize)
                 = RAY_CAPTURED"
    if v: "visits nan env (adaptiveStep env) s0 i s"
      and budget: "i < 1000" "i < ie_maxSteps env"
      and c: "g_r s < ie_rH env * 1.001 \<or>
              (\<not> g_r s < ie_rH env * 1.001 \<and> \<not> g_r s > ie_escapeRadius env \<and>
               (fl_less (nextRadius nan env (adaptiveStep env) s) 0 \<or>
                isNaN (nextRadius nan env (adaptiveStep env) s)))"
  proof -
    have "integrateGeodesic nan camPos rayDir M a maxSteps escapeRadius stepSize =
          integrateGeodesic_loop nan env i s"
      using visits_loop [OF v] by (simp add: integrateGeodesic_as_loop assms(1,2))
    moreover have "res_status (integrateGeodesic_loop nan env i s) = RAY_CAPTURED"
      using c loop_horizon [OF budget, of s nan] loop_safety [OF budget, of s nan] by auto
    ultimately show ?thesis by simp
  qed
  have plain_budget:
    "res_status (integrateGeodesic nan camPos rayDir M a maxSteps escapeRadius stepSize)
       = RAY_MAX_STEPS"
    if v: "visits nan env (adaptiveStep env) s0 i s"
      and out: "\<not> (i < 1000 \<and> i < ie_maxSteps env)"
  proof -
    have "integrateGeodesic nan camPos rayDir M a maxSteps escapeRadius stepSize =
          integrateGeodesic_loop nan env i s"
      using visits_loop [OF v] by (simp add: integrateGeodesic_as_loop assms(1,2))
    then show ?thesis by (simp add: loop_budget [OF out])
  qed
  have feat: "res_status (integrateGeodesicWithFeatures nan u camPos rayDir M a maxSteps
                            escapeRadius stepSize) = RAY_CAPTURED"
    if v: "visits nan env (featureStep u env) s0 i s"
      and budget: "i < 1000" "i < ie_maxSteps env"
      and c: "g_r s < ie_rH env * 1.001 \<or>
              (\<not> g_r s < ie_rH env * 1.001 \<and> \<not> g_r s > ie_escapeRadius env \<and>
               (fl_less (nextRadius nan env (featureStep u env) s) 0 \<or>
                isNaN (nextRadius nan env (featureStep u env) s)))"
  proof -
    obtain p' m' t' where
      "integrateGeodesicWithFeatures nan u camPos rayDir M a maxSteps escapeRadius stepSize =
       integrateGeodesicWithFeatures_loop nan u env i s p' m' t'"
      using visits_loopF [OF v, of "g_phi s0" "g_r s0" 0]
      by (auto simp: integrateGeodesicWithFeatures_as_loop assms(1,2))
    moreover
    have "res_status (integrateGeodesicWithFeatures_loop nan u env i s p' m' t') = RAY_CAPTURED"
      using c loopF_horizon [OF budget, of s nan u p' m' t']
        loopF_safety [OF budget, of s nan u p' m' t']
      by auto
    ultimately show ?thesis by simp
  qed
  have feat_budget:
    "res_status (integrateGeodesicWithFeatures nan u camPos rayDir M a maxSteps escapeRadius
                   stepSize) = RAY_MAX_STEPS"
    if v: "visits nan env (featureStep u env) s0 i s"
      and out: "\<not> (i < 1000 \<and> i < ie_maxSteps env)"
  proof -
    obtain p' m' t' where
      "integrateGeodesicWithFeatures nan u camPos rayDir M a maxSteps escapeRadius stepSize =
       integrateGeodesicWithFeatures_loop nan u env i s p' m' t'"
      using visits_loopF [OF v, of "g_phi s0" "g_r s0" 0]
      by (auto simp: integrateGeodesicWithFeatures_as_loop assms(1,2))
    then show ?thesis by (simp add: loopF_budget [OF out])
  qed
  show ?thesis
    using plain plain_budget feat feat_budget unfolding f by blast
qed


lemma eventHorizonRadius_gl_schwarzschild: "eventHorizonRadius_gl 1 0 = 2"
  by (simp add: eventHorizonRadius_gl_def safeSqrt_def)

lemma visits_radial_first_step:
  assumes env: "env = ray_env (Vec3 10 0 0) (Vec3 (- 1) 0 0) 1 0 maxSteps 50 (17 / 100)"
    and hf: "hf radial_start = 17 / 100"
    and budget: "0 < maxSteps"
    and finite: "\<not> nan radial_start (17 / 100)"
  shows "visits nan env hf radial_start 1 (rk4Step radial_start 1 0 0 1 0 (17 / 100))"
proof -
  have np: "nextPoint env hf radial_start = rk4Step radial_start 1 0 0 1 0 (17 / 100)"
    unfolding env by (simp add: nextPoint_radial hf)
  have "visits nan env hf radial_start (0 + 1) (nextPoint env hf radial_start)"
  proof (rule visits_step [OF visits_start])
    show "(0::int) < 1000" by simp
    show "0 < ie_maxSteps env" using budget by (simp add: env ray_env_fields)
    show "\<not> g_r radial_start < ie_rH env * 1.001"
      by (simp add: env ray_env_radial radial_start_def)
    show "\<not> g_r radial_start > ie_escapeRadius env"
      by (simp add: env ray_env_radial radial_start_def)
    show "\<not> (fl_less (nextRadius nan env hf radial_start) 0 \<or>
              isNaN (nextRadius nan env hf radial_start))"
      using finite by (simp add: nextRadius_test hf np rk4Step_radial_17)
  qed
  then show ?thesis by (simp add: np)
qed

theorem captured_fail_safe_witness:
  "res_status (integrateGeodesic no_nan (Vec3 10 0 0) (Vec3 (- 1) 0 0) 1 0 100 50 1)
     = RAY_CAPTURED \<and>
   isNaN (nextRadius every_nan (ray_env (Vec3 10 0 0) (Vec3 (- 1) 0 0) 1 0 100 50 (17 / 100))
            (adaptiveStep (ray_env (Vec3 10 0 0) (Vec3 (- 1) 0 0) 1 0 100 50 (17 / 100)))
            radial_start) \<and>
   res_status (integrateGeodesic every_nan (Vec3 10 0 0) (Vec3 (- 1) 0 0) 1 0 100 50 (17 / 100))
     = RAY_CAPTURED \<and>
   res_status (integrateGeodesic no_nan (Vec3 10 0 0) (Vec3 (- 1) 0 0) 1 0 100 50 (17 / 100))
     = RAY_CAPTURED \<and>
   res_status (integrateGeodesic no_nan (Vec3 10 0 0) (Vec3 (- 1) 0 0) 1 0 1 50 (17 / 100))
     = RAY_MAX_STEPS \<and>
   res_status (integrateGeodesicWithFeatures no_nan
       \<lparr>u_showDisk = False, u_diskInnerRadius = 6, u_diskOuterRadius = 15,
        u_diskThickness = 1 / 10, u_showJets = False\<rparr>
       (Vec3 10 0 0) (Vec3 (- 1) 0 0) 1 0 100 50 1) = RAY_CAPTURED \<and>
   res_status (integrateGeodesicWithFeatures every_nan
       \<lparr>u_showDisk = False, u_diskInnerRadius = 6, u_diskOuterRadius = 15,
        u_diskThickness = 1 / 10, u_showJets = False\<rparr>
       (Vec3 10 0 0) (Vec3 (- 1) 0 0) 1 0 100 50 (17 / 100)) = RAY_CAPTURED \<and>
   res_status (integrateGeodesicWithFeatures no_nan
       \<lparr>u_showDisk = False, u_diskInnerRadius = 6, u_diskOuterRadius = 15,
        u_diskThickness = 1 / 10, u_showJets = False\<rparr>
       (Vec3 10 0 0) (Vec3 (- 1) 0 0) 1 0 100 50 (17 / 100)) = RAY_CAPTURED \<and>
   res_status (integrateGeodesicWithFeatures no_nan
       \<lparr>u_showDisk = False, u_diskInnerRadius = 6, u_diskOuterRadius = 15,
        u_diskThickness = 1 / 10, u_showJets = False\<rparr>
       (Vec3 10 0 0) (Vec3 (- 1) 0 0) 1 0 1 50 (17 / 100)) = RAY_MAX_STEPS"
proof -
  define u where "u = \<lparr>u_showDisk = False, u_diskInnerRadius = 6, u_diskOuterRadius = 15,
        u_diskThickness = 1 / 10, u_showJets = False\<rparr>"
  define e1 where "e1 = ray_env (Vec3 10 0 0) (Vec3 (- 1) 0 0) 1 0 100 50 1"
  define e2 where "e2 = ray_env (Vec3 10 0 0) (Vec3 (- 1) 0 0) 1 0 100 50 (17 / 100)"
  define e3 where "e3 = ray_env (Vec3 10 0 0) (Vec3 (- 1) 0 0) 1 0 1 50 (17 / 100)"
  define s1 where "s1 = rk4Step radial_start 1 0 0 1 0 (17 / 100)"
  have s0: "radial_start = ray_start (Vec3 10 0 0) (Vec3 (- 1) 0 0) 1 0"
    by (simp add: ray_start_radial)
  have a1: "adaptiveStep e1 radial_start = 1" and f1: "featureStep u e1 radial_start = 1"
    and a2: "adaptiveStep e2 radial_start = 17 / 100" and f2: "featureStep u e2 radial_start = 17 / 100"
    and a3: "adaptiveStep e3 radial_start = 17 / 100" and f3: "featureStep u e3 radial_start = 17 / 100"
    unfolding e1_def e2_def e3_def u_def by (simp_all add: adaptiveStep_radial featureStep_radial)
  have n1: "fl_less (nextRadius no_nan e1 (adaptiveStep e1) radial_start) 0"
           "fl_less (nextRadius no_nan e1 (featureStep u e1) radial_start) 0"
    using a1 f1 unfolding e1_def no_nan_def
    by (simp_all add: nextRadius_def steppedRadius_def fl_less_def nextPoint_radial rk4Step_radial_1)
  have n2: "isNaN (nextRadius every_nan e2 (adaptiveStep e2) radial_start)"
           "isNaN (nextRadius every_nan e2 (featureStep u e2) radial_start)"
    by (simp_all add: nextRadius_def steppedRadius_def isNaN_def fl_noteq_def every_nan_def)
  have r0: "\<not> g_r radial_start < eventHorizonRadius_gl 1 0 * 1.001" "\<not> g_r radial_start > 50"
    by (simp_all add: eventHorizonRadius_gl_schwarzschild radial_start_def)
  have fin: "\<not> no_nan radial_start (17 / 100)" by (simp add: no_nan_def)
  have v2: "visits no_nan e2 (adaptiveStep e2) radial_start 1 s1"
           "visits no_nan e2 (featureStep u e2) radial_start 1 s1"
    unfolding s1_def
    using fin
      visits_radial_first_step
        [where hf = "adaptiveStep e2" and nan = no_nan and maxSteps = 100, OF e2_def a2]
      visits_radial_first_step
        [where hf = "featureStep u e2" and nan = no_nan and maxSteps = 100, OF e2_def f2]
    by simp_all
  have v3: "visits no_nan e3 (adaptiveStep e3) radial_start 1 s1"
           "visits no_nan e3 (featureStep u e3) radial_start 1 s1"
    unfolding s1_def
    using fin
      visits_radial_first_step
        [where hf = "adaptiveStep e3" and nan = no_nan and maxSteps = 1, OF e3_def a3]
      visits_radial_first_step
        [where hf = "featureStep u e3" and nan = no_nan and maxSteps = 1, OF e3_def f3]
    by simp_all
  have r1: "g_r s1 < eventHorizonRadius_gl 1 0 * 1.001"
    by (simp add: s1_def rk4Step_radial_17 eventHorizonRadius_gl_schwarzschild)
  have i0: "(0::int) < 1000 \<and> (0::int) < 100" and i1: "(1::int) < 1000 \<and> (1::int) < 100"
    and i3: "\<not> ((1::int) < 1000 \<and> (1::int) < 1)"
    by simp_all
  note w1 = captured_fail_safe [OF e1_def s0, of no_nan 0 radial_start u]
  note w2 = captured_fail_safe [OF e2_def s0, of every_nan 0 radial_start u]
  note w3 = captured_fail_safe [OF e2_def s0, of no_nan 1 s1 u]
  note w4 = captured_fail_safe [OF e3_def s0, of no_nan 1 s1 u]
  have "res_status (integrateGeodesic no_nan (Vec3 10 0 0) (Vec3 (- 1) 0 0) 1 0 100 50 1) = RAY_CAPTURED"
    using w1 n1 r0 i0 visits_start [of no_nan e1 "adaptiveStep e1" radial_start] by blast
  moreover
  have "res_status (integrateGeodesicWithFeatures no_nan u (Vec3 10 0 0) (Vec3 (- 1) 0 0) 1 0 100 50 1)
          = RAY_CAPTURED"
    using w1 n1 r0 i0 visits_start [of no_nan e1 "featureStep u e1" radial_start] by blast
  moreover
  have "res_status (integrateGeodesic every_nan (Vec3 10 0 0) (Vec3 (- 1) 0 0) 1 0 100 50 (17 / 100))
          = RAY_CAPTURED"
    using w2 n2 r0 i0 visits_start [of every_nan e2 "adaptiveStep e2" radial_start] by blast
  moreover
  have "res_status (integrateGeodesicWithFeatures every_nan u (Vec3 10 0 0) (Vec3 (- 1) 0 0) 1 0 100 50
                      (17 / 100)) = RAY_CAPTURED"
    using w2 n2 r0 i0 visits_start [of every_nan e2 "featureStep u e2" radial_start] by blast
  moreover
  have "res_status (integrateGeodesic no_nan (Vec3 10 0 0) (Vec3 (- 1) 0 0) 1 0 100 50 (17 / 100))
          = RAY_CAPTURED"
    using w3 v2 r1 i1 by blast
  moreover
  have "res_status (integrateGeodesicWithFeatures no_nan u (Vec3 10 0 0) (Vec3 (- 1) 0 0) 1 0 100 50
                      (17 / 100)) = RAY_CAPTURED"
    using w3 v2 r1 i1 by blast
  moreover
  have "res_status (integrateGeodesic no_nan (Vec3 10 0 0) (Vec3 (- 1) 0 0) 1 0 1 50 (17 / 100))
          = RAY_MAX_STEPS"
    using w4 v3 i3 by blast
  moreover
  have "res_status (integrateGeodesicWithFeatures no_nan u (Vec3 10 0 0) (Vec3 (- 1) 0 0) 1 0 1 50
                      (17 / 100)) = RAY_MAX_STEPS"
    using w4 v3 i3 by blast
  ultimately show ?thesis
    using n2(1) unfolding u_def e2_def by blast
qed

text \<open>
  The claim as first stated does not mention the step budget. With \<^verbatim>\<open>maxSteps = 1\<close> and step
  size 0.17 the sample ray takes one RK4 step, which brings \<open>r\<close> to about 1.65, below
  \<open>1.001\<close> times the horizon radius 2 (and neither negative nor NaN); the next iteration
  finds the budget exhausted before it looks at \<open>r\<close>, and the ray ends as
  \<^verbatim>\<open>RAY_MAX_STEPS\<close>.
\<close>

theorem captured_below_horizon_counterexample:
  "initializeGeodesic (Vec3 10 0 0) (Vec3 (- 1) 0 0) 1 0 = (radial_start, 1, 0, 0) \<and>
   adaptiveStep (ray_env (Vec3 10 0 0) (Vec3 (- 1) 0 0) 1 0 1 50 (17 / 100)) radial_start = 17 / 100 \<and>
   0 \<le> g_r (rk4Step radial_start 1 0 0 1 0 (17 / 100)) \<and>
   g_r (rk4Step radial_start 1 0 0 1 0 (17 / 100)) < eventHorizonRadius_gl 1 0 * 1.001 \<and>
   integrateGeodesic no_nan (Vec3 10 0 0) (Vec3 (- 1) 0 0) 1 0 1 50 (17 / 100) =
     \<lparr>res_status = RAY_MAX_STEPS, res_finalDir = Vec3 (- 1) 0 0, res_steps = 1\<rparr>"
proof -
  define env where "env = ray_env (Vec3 10 0 0) (Vec3 (- 1) 0 0) 1 0 1 50 (17 / 100)"
  have h: "adaptiveStep env radial_start = 17 / 100"
    unfolding env_def by (rule adaptiveStep_radial)
  have np: "nextPoint env (adaptiveStep env) radial_start = rk4Step radial_start 1 0 0 1 0 (17 / 100)"
    by (simp add: env_def nextPoint_radial adaptiveStep_radial)
  have "integrateGeodesic no_nan (Vec3 10 0 0) (Vec3 (- 1) 0 0) 1 0 1 50 (17 / 100) =
        integrateGeodesic_loop no_nan env 0 radial_start"
    by (simp add: integrateGeodesic_as_loop ray_start_radial env_def)
  also have "\<dots> = integrateGeodesic_loop no_nan env (0 + 1) (nextPoint env (adaptiveStep env) radial_start)"
  proof (rule loop_continue)
    show "(0::int) < 1000" by simp
    show "0 < ie_maxSteps env" by (simp add: env_def ray_env_fields)
    show "\<not> g_r radial_start < ie_rH env * 1.001"
      by (simp add: env_def ray_env_radial radial_start_def)
    show "\<not> g_r radial_start > ie_escapeRadius env"
      by (simp add: env_def ray_env_radial radial_start_def)
    show "\<not> (fl_less (nextRadius no_nan env (adaptiveStep env) radial_start) 0 \<or>
              isNaN (nextRadius no_nan env (adaptiveStep env) radial_start))"
      by (simp add: nextRadius_test np rk4Step_radial_17 no_nan_def)
  qed
  also have "\<dots> = \<lparr>res_status = RAY_MAX_STEPS, res_finalDir = ie_rayDir env, res_steps = 0 + 1\<rparr>"
    by (rule loop_budget) (simp add: env_def ray_env_fields)
  finally have "integrateGeodesic no_nan (Vec3 10 0 0) (Vec3 (- 1) 0 0) 1 0 1 50 (17 / 100) =
     \<lparr>res_status = RAY_MAX_STEPS, res_finalDir = Vec3 (- 1) 0 0, res_steps = 1\<rparr>"
    by (simp add: env_def ray_env_fields)
  moreover have "0 \<le> g_r (rk4Step radial_start 1 0 0 1 0 (17 / 100))"
    "g_r (rk4Step radial_start 1 0 0 1 0 (17 / 100)) < eventHorizonRadius_gl 1 0 * 1.001"
    by (simp_all add: rk4Step_radial_17 eventHorizonRadius_gl_schwarzschild)
  ultimately show ?thesis
    using h initializeGeodesic_radial by (simp add: env_def no_nan_def)
qed


section \<open>The polar angle stays away from the poles\<close>

lemma clamp_bounds: "lo \<le> hi \<Longrightarrow> lo \<le> clamp x lo hi \<and> clamp x lo hi \<le> hi"
  by (auto simp: clamp_def)

lemma in_theta_range_clamp: "in_theta_range (clamp x 0.001 (PI - 0.001))"
  using clamp_bounds [of "0.001" "PI - 0.001" x] by (simp add: in_theta_range_def PI_def)

lemma in_theta_range_clamp_init: "in_theta_range (clamp x 0.01 (PI - 0.01))"
  using clamp_bounds [of "0.01" "PI - 0.01" x] by (simp add: in_theta_range_def PI_def)

lemma in_theta_range_ray_start: "in_theta_range (g_theta (ray_start camPos rayDir M a))"
  by (simp add: ray_start_def initializeGeodesic_def Let_def case_prod_beta
      in_theta_range_clamp_init [simplified])

lemma in_theta_range_rk4Step: "in_theta_range (g_theta (rk4Step s E Lz Q M a h))"
  by (simp add: rk4Step_def turningPoints_def rk4_update_def Let_def case_prod_beta
      in_theta_range_clamp [simplified])

lemma in_theta_range_stage: "in_theta_range (fst (snd (rk4_stage s c k)))"
  by (simp add: rk4_stage_def in_theta_range_clamp [simplified])

lemma cos_15703_pos: "0 < cos (15703 / 10000 :: real)"
proof -
  define x :: real where "x = 15703 / 10000"
  have "0 < x" by (simp add: x_def)
  from Maclaurin_cos_expansion2 [OF this, of 10]
  obtain t where t: "cos x = (\<Sum>m<10. cos_coeff m * x ^ m)
                       + (cos (t + 1 / 2 * real 10 * pi) / fact 10) * x ^ 10"
    by auto
  have s: "(\<Sum>m<10. cos_coeff m * x ^ m) = 1 - x^2 / 2 + x^4 / 24 - x^6 / 720 + x^8 / 40320"
    by (simp add: lessThan_nat_numeral lessThan_Suc cos_coeff_def fact_numeral)
  define c where "c = cos (t + 1 / 2 * real 10 * pi)"
  have "- 1 \<le> c" by (simp add: c_def)
  moreover have "0 \<le> x ^ 10 / fact 10" using \<open>0 < x\<close> by simp
  ultimately have "(x ^ 10 / fact 10) * (- 1) \<le> (x ^ 10 / fact 10) * c"
    by (rule mult_left_mono)
  then have "- (x ^ 10 / fact 10) \<le> (cos (t + 1 / 2 * real 10 * pi) / fact 10) * x ^ 10"
    by (simp add: c_def mult.commute)
  moreover have "0 < 1 - x^2 / 2 + x^4 / 24 - x^6 / 720 + x^8 / 40320 - x ^ 10 / fact 10"
    by (simp add: x_def fact_numeral power_divide)
  ultimately have "0 < cos x"
    unfolding t s by linarith
  then show ?thesis by (simp add: x_def)
qed

lemma pi_lower: "3.1406 < pi"
proof (rule ccontr)
  assume "\<not> 3.1406 < pi"
  then have "pi / 2 \<le> 15703 / 10000" by simp
  moreover have "(15703 / 10000 :: real) \<le> pi" using pi_ge_two by simp
  ultimately have "cos (15703 / 10000) \<le> cos (pi / 2)"
    by (intro cos_monotone_0_pi_le) simp_all
  with cos_15703_pos show False by simp
qed

lemma sin_lower_on_interval:
  fixes lo hi t :: real
  assumes "0 \<le> lo" "lo \<le> t" "t \<le> hi" "hi \<le> pi"
  shows "min (sin lo) (sin hi) \<le> sin t"
proof (cases "t \<le> pi / 2")
  case True
  then have "sin lo \<le> sin t"
    using assms by (intro sin_monotone_2pi_le) simp_all
  then show ?thesis by simp
next
  case False
  have "sin (pi - hi) \<le> sin (pi - t)"
    using assms False by (intro sin_monotone_2pi_le) simp_all
  then show ?thesis by simp
qed

lemma sin_in_theta_range:
  assumes "in_theta_range t"
  shows "min (sin 0.001) (sin (PI - 0.001)) \<le> sin t"
proof -
  have "PI - 0.001 \<le> pi"
    using pi_lower by (simp add: PI_def)
  then show ?thesis
    using assms by (intro sin_lower_on_interval) (simp_all add: in_theta_range_def)
qed

lemma sin_range_floor_pos: "0 < min (sin 0.001) (sin (PI - 0.001))"
proof -
  have "(0::real) < 0.001" "(0.001::real) < pi"
    using pi_ge_two by simp_all
  then have 1: "0 < sin (0.001::real)"
    by (rule sin_gt_zero)
  have "0 < PI - 0.001" "PI - 0.001 < pi"
    using pi_lower by (simp_all add: PI_def)
  then have 2: "0 < sin (PI - 0.001)"
    by (rule sin_gt_zero)
  from 1 2 show ?thesis by simp
qed

lemma visits_in_theta_range:
  "visits nan env hf s0 i s \<Longrightarrow> in_theta_range (g_theta s0) \<Longrightarrow> in_theta_range (g_theta s)"
  by (induction rule: visits.induct) (simp_all add: nextPoint_def in_theta_range_rk4Step)

text \<open>
  C9. After \<^verbatim>\<open>initializeGeodesic\<close> and after every call of \<^verbatim>\<open>rk4Step\<close>, \<open>\<theta>\<close> lies in
  \<open>[0.001, PI - 0.001]\<close>, where \<open>PI\<close> is the shader's constant \<open>3.14159265359\<close>; the three
  substage angles of \<^verbatim>\<open>rk4Step\<close> lie there as well. Hence at every point that either
  integration loop visits (at whichever steps \<^verbatim>\<open>r\<close> turns into NaN and ends the ray), \<open>\<theta>\<close>
  is in that interval and \<open>sin \<theta>\<close> is at least the positive constant
  \<open>min (sin 0.001) (sin (PI - 0.001))\<close>.
\<close>

theorem theta_in_range:
  "in_theta_range (g_theta (fst (initializeGeodesic camPos rayDir M a))) \<and>
   in_theta_range (g_theta (rk4Step s E Lz Q M' a' h)) \<and>
   in_theta_range (fst (snd (rk4_stage2 s E Lz Q M' a' h))) \<and>
   in_theta_range (fst (snd (rk4_stage3 s E Lz Q M' a' h))) \<and>
   in_theta_range (fst (snd (rk4_stage4 s E Lz Q M' a' h))) \<and>
   0 < min (sin 0.001) (sin (PI - 0.001)) \<and>
   (visits nan env hf (ray_start camPos rayDir M a) i p \<longrightarrow>
      0.001 \<le> g_theta p \<and> g_theta p \<le> PI - 0.001 \<and>
      min (sin 0.001) (sin (PI - 0.001)) \<le> sin (g_theta p))"
proof -
  have v: "in_theta_range (g_theta p)" if "visits nan env hf (ray_start camPos rayDir M a) i p"
    using visits_in_theta_range [OF that in_theta_range_ray_start] .
  have "0.001 \<le> g_theta p \<and> g_theta p \<le> PI - 0.001 \<and>
        min (sin 0.001) (sin (PI - 0.001)) \<le> sin (g_theta p)"
    if "visits nan env hf (ray_start camPos rayDir M a) i p"
    using v [OF that] sin_in_theta_range [of "g_theta p"] by (simp add: in_theta_range_def)
  then show ?thesis
    using in_theta_range_ray_start [of camPos rayDir M a] in_theta_range_rk4Step
      sin_range_floor_pos
    by (simp add: ray_start_def rk4_stage2_def rk4_stage3_def rk4_stage4_def in_theta_range_stage)
qed

theorem theta_in_range_witness:
  "visits no_nan (ray_env (Vec3 10 0 0) (Vec3 (- 1) 0 0) 1 0 100 50 (17 / 100))
     (adaptiveStep (ray_env (Vec3 10 0 0) (Vec3 (- 1) 0 0) 1 0 100 50 (17 / 100)))
     (ray_start (Vec3 10 0 0) (Vec3 (- 1) 0 0) 1 0) 1
     (rk4Step radial_start 1 0 0 1 0 (17 / 100)) \<and>
   0.001 \<le> g_theta (rk4Step radial_start 1 0 0 1 0 (17 / 100)) \<and>
   g_theta (rk4Step radial_start 1 0 0 1 0 (17 / 100)) \<le> PI - 0.001 \<and>
   0 < sin (g_theta (rk4Step radial_start 1 0 0 1 0 (17 / 100)))"
proof -
  define env where "env = ray_env (Vec3 10 0 0) (Vec3 (- 1) 0 0) 1 0 100 50 (17 / 100)"
  have v: "visits no_nan env (adaptiveStep env)
             (ray_start (Vec3 10 0 0) (Vec3 (- 1) 0 0) 1 0) 1
             (rk4Step radial_start 1 0 0 1 0 (17 / 100))"
    using visits_radial_first_step
      [where hf = "adaptiveStep env" and nan = no_nan and maxSteps = 100, OF env_def]
    by (simp add: env_def adaptiveStep_radial ray_start_radial no_nan_def)
  from theta_in_range [of "Vec3 10 0 0" "Vec3 (- 1) 0 0" 1 0 radial_start 1 0 0 1 0 1
      no_nan env "adaptiveStep env" 1 "rk4Step radial_start 1 0 0 1 0 (17 / 100)"] v
  show ?thesis
    unfolding env_def by auto
qed


section \<open>Coordinate round trip\<close>








subsection \<open>The shader's pair: the literal for \<open>2\<pi>\<close>\<close>





























section \<open>Disk temperature profile\<close>

lemma sqrt_9: "sqrt (9::real) = 3"
  using real_sqrt_abs [of 3] by simp

lemma isco_Z_schwarzschild: "isco_Z1 0 = 3" "isco_Z2 0 = 3"
  by (simp_all add: isco_Z1_def isco_Z2_def sqrt_9)

lemma calculateISCO_schwarzschild:
  "calculateISCO \<lparr>ad_M = m, ad_a = 0, ad_outerRadius = ro, ad_T0 = t, ad_innerRadius = ri\<rparr> = 6 * m"
  by (simp add: calculateISCO_def isco_Z_schwarzschild)

lemma AccretionDisk_new_schwarzschild:
  "AccretionDisk_new m 0 None ro t =
     \<lparr>ad_M = m, ad_a = 0, ad_outerRadius = ro, ad_T0 = t, ad_innerRadius = 6 * m\<rparr>"
  by (simp add: AccretionDisk_new_def calculateISCO_schwarzschild)

lemma profile_args:
  fixes M ri r :: real
  assumes "0 < M" "0 \<le> ri" "ri < r"
  shows "ri / M / (r / M) = ri / r" and "1 / (r / M * (r / M) * (r / M)) = (M / r) ^ 3"
    and "0 < 1 - sqrt (ri / r)"
proof -
  show "ri / M / (r / M) = ri / r" using assms by simp
  show "1 / (r / M * (r / M) * (r / M)) = (M / r) ^ 3"
    using assms by (simp add: power3_eq_cube field_simps)
  have "ri / r < 1" using assms by simp
  then show "0 < 1 - sqrt (ri / r)" by simp
qed

lemma temperature_outside:
  assumes "0 < ad_M d" "0 \<le> ad_innerRadius d" "ad_innerRadius d < r"
  shows "temperature d r =
     min (ad_T0 d * ((ad_M d / r) ^ 3) powr 0.25 * (1 - sqrt (ad_innerRadius d / r)) powr 0.25) (ad_T0 d)"
  using assms profile_args [OF assms]
  by (simp add: temperature_def Let_def)

lemma diskTemperature_outside:
  assumes "0 < M" "0 \<le> rISCO" "rISCO < r"
  shows "diskTemperature r rISCO T0 M = T0 * ((M / r) ^ 3) powr 0.25 * (1 - sqrt (rISCO / r)) powr 0.25"
  using assms profile_args [OF assms]
  by (simp add: diskTemperature_def Let_def)

lemma diskTemperatureNT_outside:
  assumes "0 < M" "0 \<le> rISCO" "rISCO * 1.001 < r"
  shows "diskTemperatureNT r rISCO T0 M 0 =
     clamp (T0 * ((M / r) ^ 3) powr 0.25 * (1 - sqrt (rISCO / r)) powr 0.25) 0 50000"
proof -
  have lt: "rISCO < r" using assms by simp
  then have r0: "0 < r" using assms by simp
  have x: "sqrt (r / M) * sqrt (r / M) = r / M"
    using assms r0 by simp
  have q: "sqrt (rISCO / M) / sqrt (r / M) = sqrt (rISCO / r)"
    using assms r0 by (simp add: real_sqrt_divide [symmetric])
  note p = profile_args [OF assms(1,2) lt]
  have "max (1 - sqrt (rISCO / r)) 0 = 1 - sqrt (rISCO / r)"
    using p(3) by simp
  moreover have "(1 - sqrt (rISCO / r)) / (r / M * (r / M) * (r / M))
        = 1 / (r / M * (r / M) * (r / M)) * (1 - sqrt (rISCO / r))"
    by simp
  then have "(1 - sqrt (rISCO / r)) / (r / M * (r / M) * (r / M)) = (M / r) ^ 3 * (1 - sqrt (rISCO / r))"
    by (simp only: p(2))
  ultimately show ?thesis
    using assms p(3)
    by (simp add: diskTemperatureNT_def Let_def x q powr_mult mult.assoc)
qed

lemma h_mono:
  fixes s1 s2 :: real
  assumes "0 < s1" "s1 < s2" "s2 \<le> 6 / 7"
  shows "s1 ^ 6 * (1 - s1) < s2 ^ 6 * (1 - s2)"
proof (rule DERIV_pos_imp_increasing_open [OF assms(2), of "\<lambda>s. s ^ 6 * (1 - s)"])
  fix x :: real
  assume x: "s1 < x" "x < s2"
  have d: "((\<lambda>s. s ^ 6 * (1 - s)) has_real_derivative (x ^ 5 * (6 - 7 * x))) (at x)"
    by (auto intro!: derivative_eq_intros simp: algebra_simps power_eq_if)
  have "0 < x" "x < 6 / 7" using x assms by simp_all
  then have "0 < x ^ 5 * (6 - 7 * x)" by simp
  with d show "\<exists>y. ((\<lambda>s. s ^ 6 * (1 - s)) has_real_derivative y) (at x) \<and> 0 < y" by blast
next
  show "continuous_on {s1..s2} (\<lambda>s. s ^ 6 * (1 - s))"
    by (intro continuous_intros)
qed

lemma G_via_s:
  fixes r :: real
  assumes "0 < r"
  shows "(1 / r) ^ 3 * (1 - sqrt (6 / r)) = sqrt (6 / r) ^ 6 * (1 - sqrt (6 / r)) / 216"
proof -
  have "sqrt (6 / r) ^ 6 = (sqrt (6 / r) ^ 2) ^ 3"
    by (simp add: power_mult [symmetric])
  also have "\<dots> = (6 / r) ^ 3" using assms by simp
  also have "\<dots> = 216 * (1 / r) ^ 3" by (simp add: power_divide)
  finally show ?thesis by simp
qed

lemma G_decreasing:
  fixes r1 r2 :: real
  assumes "49 / 6 \<le> r1" "r1 < r2"
  shows "(1 / r2) ^ 3 * (1 - sqrt (6 / r2)) < (1 / r1) ^ 3 * (1 - sqrt (6 / r1))"
proof -
  have pos: "0 < r1" "0 < r2" using assms by simp_all
  have "6 / r2 < 6 / r1" using assms pos by (simp add: field_simps)
  then have lt: "sqrt (6 / r2) < sqrt (6 / r1)" by simp
  have "6 / r1 \<le> (6 / 7)\<^sup>2" using assms pos by (simp add: field_simps power2_eq_square)
  then have le: "sqrt (6 / r1) \<le> 6 / 7"
    by (intro real_le_lsqrt) simp_all
  have "0 < sqrt (6 / r2)" using pos by simp
  from h_mono [OF this lt le] show ?thesis
    by (simp add: G_via_s pos)
qed

lemma d0_fields:
  "ad_M (AccretionDisk_new 1 0 None 15 10000000) = 1"
  "ad_innerRadius (AccretionDisk_new 1 0 None 15 10000000) = 6"
  "ad_T0 (AccretionDisk_new 1 0 None 15 10000000) = 10000000"
  by (simp_all add: AccretionDisk_new_schwarzschild)

lemma temperature_default:
  assumes "6 < r"
  shows "temperature (AccretionDisk_new 1 0 None 15 10000000) r = 10000000 * ((1 / r) ^ 3 * (1 - sqrt (6 / r))) powr 0.25"
    and "0 < (1 / r) ^ 3 * (1 - sqrt (6 / r))"
proof -
  have r0: "0 < r" using assms by simp
  have f: "0 < 1 - sqrt (6 / r)" "1 - sqrt (6 / r) \<le> 1"
    using profile_args(3) [of 1 6 r] assms r0 by simp_all
  have c: "0 < (1 / r) ^ 3" "(1 / r) ^ 3 \<le> 1"
    using assms by (simp_all add: power_le_one)
  show g0: "0 < (1 / r) ^ 3 * (1 - sqrt (6 / r))"
    using f c by simp
  have "(1 / r) ^ 3 * (1 - sqrt (6 / r)) \<le> 1 * 1"
    using f c by (intro mult_mono) simp_all
  then have "((1 / r) ^ 3 * (1 - sqrt (6 / r))) powr 0.25 \<le> 1 powr 0.25"
    using g0 by (intro powr_mono2) simp_all
  then have le: "10000000 * ((1 / r) ^ 3 * (1 - sqrt (6 / r))) powr 0.25 \<le> 10000000"
    by simp
  have "temperature (AccretionDisk_new 1 0 None 15 10000000) r =
     min (10000000 * ((1 / r) ^ 3) powr 0.25 * (1 - sqrt (6 / r)) powr 0.25) 10000000"
    using temperature_outside [of "AccretionDisk_new 1 0 None 15 10000000" r] assms by (simp add: d0_fields)
  also have "\<dots> = min (10000000 * ((1 / r) ^ 3 * (1 - sqrt (6 / r))) powr 0.25) 10000000"
    by (simp add: powr_mult mult.assoc)
  also have "\<dots> = 10000000 * ((1 / r) ^ 3 * (1 - sqrt (6 / r))) powr 0.25"
    using le by simp
  finally show "temperature (AccretionDisk_new 1 0 None 15 10000000) r = 10000000 * ((1 / r) ^ 3 * (1 - sqrt (6 / r))) powr 0.25" .
qed

lemma temperature_default_positive: "6 < r \<Longrightarrow> 0 < temperature (AccretionDisk_new 1 0 None 15 10000000) r"
  using temperature_default [of r] by simp

lemma temperature_default_decreasing:
  assumes "49 / 6 \<le> r1" "r1 < r2"
  shows "temperature (AccretionDisk_new 1 0 None 15 10000000) r2 < temperature (AccretionDisk_new 1 0 None 15 10000000) r1"
proof -
  have r: "6 < r1" "6 < r2" using assms by simp_all
  have "((1 / r2) ^ 3 * (1 - sqrt (6 / r2))) powr 0.25 < ((1 / r1) ^ 3 * (1 - sqrt (6 / r1))) powr 0.25"
    using G_decreasing [OF assms] temperature_default(2) [OF r(2)]
    by (intro powr_less_mono2) simp_all
  then show ?thesis
    by (simp add: temperature_default(1) [OF r(1)] temperature_default(1) [OF r(2)])
qed

text \<open>
  What the three functions compute, in terms of \<open>M / r\<close>: the host \<^verbatim>\<open>temperature\<close> and the
  shader's \<^verbatim>\<open>diskTemperature\<close> and \<^verbatim>\<open>diskTemperatureNT\<close> (the one that \<^verbatim>\<open>diskEmission\<close>
  calls) all work with the dimensionless radius \<open>x = r / M\<close>, so that their radial factor is
  the cube of \<open>M / r\<close>. For the default Schwarzschild disk (\<open>M = 1\<close>, \<open>a = 0\<close>, \<open>T0 = 10\<^sup>7\<close>,
  inner radius 6) the host profile is strictly positive for \<open>r > 6\<close> and strictly
  decreasing from its peak at \<open>r = 49/6\<close> on, so \<open>T(10) > T(15) > T(20)\<close>.
\<close>

lemma temperature_as_computed:
  "(r \<le> ad_innerRadius d \<longrightarrow> temperature d r = 0) \<and>
   (0 < ad_M d \<and> 0 \<le> ad_innerRadius d \<and> ad_innerRadius d < r \<longrightarrow>
      temperature d r =
        min (ad_T0 d * ((ad_M d / r) ^ 3) powr 0.25 * (1 - sqrt (ad_innerRadius d / r)) powr 0.25)
            (ad_T0 d)) \<and>
   ad_innerRadius (AccretionDisk_new mass spin None ro tp) =
     calculateISCO (AccretionDisk_new mass spin None ro tp) \<and>
   (r \<le> rISCO \<longrightarrow> diskTemperature r rISCO T0 M = 0) \<and>
   (0 < M \<and> 0 \<le> rISCO \<and> rISCO < r \<longrightarrow>
      diskTemperature r rISCO T0 M =
        T0 * ((M / r) ^ 3) powr 0.25 * (1 - sqrt (rISCO / r)) powr 0.25) \<and>
   (r \<le> rISCO * 1.001 \<longrightarrow> diskTemperatureNT r rISCO T0 M a = 0) \<and>
   (0 < M \<and> 0 \<le> rISCO \<and> rISCO * 1.001 < r \<longrightarrow>
      diskTemperatureNT r rISCO T0 M 0 =
        clamp (T0 * ((M / r) ^ 3) powr 0.25 * (1 - sqrt (rISCO / r)) powr 0.25) 0 50000)"
proof -
  have 1: "r \<le> ad_innerRadius d \<longrightarrow> temperature d r = 0"
    by (simp add: temperature_def)
  have 2: "0 < ad_M d \<and> 0 \<le> ad_innerRadius d \<and> ad_innerRadius d < r \<longrightarrow>
      temperature d r =
        min (ad_T0 d * ((ad_M d / r) ^ 3) powr 0.25 * (1 - sqrt (ad_innerRadius d / r)) powr 0.25)
            (ad_T0 d)"
    using temperature_outside [of d r] by blast
  have 3: "ad_innerRadius (AccretionDisk_new mass spin None ro tp) =
     calculateISCO (AccretionDisk_new mass spin None ro tp)"
    by (simp add: AccretionDisk_new_def calculateISCO_def)
  have 4: "r \<le> rISCO \<longrightarrow> diskTemperature r rISCO T0 M = 0"
    by (simp add: diskTemperature_def)
  have 5: "0 < M \<and> 0 \<le> rISCO \<and> rISCO < r \<longrightarrow>
      diskTemperature r rISCO T0 M =
        T0 * ((M / r) ^ 3) powr 0.25 * (1 - sqrt (rISCO / r)) powr 0.25"
    using diskTemperature_outside [of M rISCO r T0] by blast
  have 6: "r \<le> rISCO * 1.001 \<longrightarrow> diskTemperatureNT r rISCO T0 M a = 0"
    by (simp add: diskTemperatureNT_def)
  have 7: "0 < M \<and> 0 \<le> rISCO \<and> rISCO * 1.001 < r \<longrightarrow>
      diskTemperatureNT r rISCO T0 M 0 =
        clamp (T0 * ((M / r) ^ 3) powr 0.25 * (1 - sqrt (rISCO / r)) powr 0.25) 0 50000"
    using diskTemperatureNT_outside [of M rISCO r T0] by blast
  from 1 2 3 4 5 6 7 show ?thesis by blast
qed

lemma temperature_default_profile:
  "ad_innerRadius (AccretionDisk_new 1 0 None 15 10000000) = 6 \<and>
   temperature (AccretionDisk_new 1 0 None 15 10000000) 6 = 0 \<and>
   temperature (AccretionDisk_new 1 0 None 15 10000000) 15
     < temperature (AccretionDisk_new 1 0 None 15 10000000) 10 \<and>
   temperature (AccretionDisk_new 1 0 None 15 10000000) 20
     < temperature (AccretionDisk_new 1 0 None 15 10000000) 15 \<and>
   0 < temperature (AccretionDisk_new 1 0 None 15 10000000) 20"
proof -
  have 0: "temperature (AccretionDisk_new 1 0 None 15 10000000) 6 = 0"
    by (simp add: temperature_def d0_fields)
  have 10: "temperature (AccretionDisk_new 1 0 None 15 10000000) 15
     < temperature (AccretionDisk_new 1 0 None 15 10000000) 10"
    by (rule temperature_default_decreasing) simp_all
  have 11: "temperature (AccretionDisk_new 1 0 None 15 10000000) 20
     < temperature (AccretionDisk_new 1 0 None 15 10000000) 15"
    by (rule temperature_default_decreasing) simp_all
  have 12: "0 < temperature (AccretionDisk_new 1 0 None 15 10000000) 20"
    by (rule temperature_default_positive) simp
  from 0 10 11 12 d0_fields(2) show ?thesis by blast
qed

lemma fourth_root:
  fixes x :: real
  assumes "0 \<le> x"
  shows "(x ^ 4) powr (1 / 4) = x"
proof -
  have "(x ^ 4) powr (1 / 4) = (x powr 4) powr (1 / 4)"
    using assms by simp
  also have "\<dots> = x powr 1" by (simp add: powr_powr)
  also have "\<dots> = x" using assms by simp
  finally show ?thesis .
qed

lemma fourth_roots:
  "((4 / 64) ^ 3 :: real) powr 0.25 = 1 / 8" "(4 / 64 ^ 3 :: real) powr 0.25 = 1 / 16"
proof -
  have e: "((4 / 64) ^ 3 :: real) = (1 / 8) ^ 4" "(4 / 64 ^ 3 :: real) = (1 / 16) ^ 4"
    by (simp_all add: power_divide)
  have q: "(0.25 :: real) = 1 / 4" by simp
  show "((4 / 64) ^ 3 :: real) powr 0.25 = 1 / 8"
    unfolding e q by (rule fourth_root) simp
  show "(4 / 64 ^ 3 :: real) powr 0.25 = 1 / 16"
    unfolding e q by (rule fourth_root) simp
qed

text \<open>
  C6. The claim gives the temperature beyond the ISCO as
  \<open>T0 \<cdot> (M/r\<^sup>3)^0.25 \<cdot> (1 - \<surd>(r\<^sub>I\<^sub>S\<^sub>C\<^sub>O/r))^0.25\<close>, and so do the doc comments of \<^verbatim>\<open>temperature\<close> in
  accretion-disk.js and of \<^verbatim>\<open>diskTemperature\<close> in accretion-disk.glsl. The code computes
  \<^verbatim>\<open>pow(1 / (x * x * x), 0.25)\<close> with \<^verbatim>\<open>x = r / M\<close>, that is \<open>((M/r)\<^sup>3)^0.25\<close>, which is the
  documented factor only for \<open>M = 1\<close>. For a Schwarzschild hole of mass 4 (ISCO 24) and
  \<open>T0 = 10\<^sup>7\<close> the host returns \<open>1250000 \<cdot> c\<close> at \<open>r = 64\<close>, where the documented formula (with
  its cap at \<open>T0\<close>) gives \<open>625000 \<cdot> c\<close>, with \<open>c = (1 - \<surd>(24/64))^0.25 > 0\<close>. The shader's
  \<^verbatim>\<open>diskTemperatureNT\<close> has the same factor: with \<open>T0 = 1000\<close> it returns \<open>125 \<cdot> c\<close> at the same
  point, where the documented formula gives \<open>62.5 \<cdot> c\<close>, both below the ceiling of 50000.
\<close>

theorem disk_temperature_mass_scaling:
  "ad_innerRadius (AccretionDisk_new 4 0 None 100 10000000) = 24 \<and>
   0 < (1 - sqrt (24 / 64 :: real)) powr 0.25 \<and>
   temperature (AccretionDisk_new 4 0 None 100 10000000) 64
     = 1250000 * (1 - sqrt (24 / 64)) powr 0.25 \<and>
   min (10000000 * (4 / 64 ^ 3) powr 0.25 * (1 - sqrt (24 / 64)) powr 0.25) 10000000
     = 625000 * (1 - sqrt (24 / 64)) powr 0.25 \<and>
   temperature (AccretionDisk_new 4 0 None 100 10000000) 64 \<noteq>
     min (10000000 * (4 / 64 ^ 3) powr 0.25 * (1 - sqrt (24 / 64)) powr 0.25) 10000000 \<and>
   diskTemperatureNT 64 24 1000 4 0 = 125 * (1 - sqrt (24 / 64)) powr 0.25 \<and>
   clamp (1000 * (4 / 64 ^ 3) powr 0.25 * (1 - sqrt (24 / 64)) powr 0.25) 0 50000
     = 125 / 2 * (1 - sqrt (24 / 64)) powr 0.25"
proof -
  define c :: real where "c = (1 - sqrt (24 / 64)) powr 0.25"
  have inner: "ad_innerRadius (AccretionDisk_new 4 0 None 100 10000000) = 24"
    by (simp add: AccretionDisk_new_schwarzschild)
  have f: "0 < 1 - sqrt (24 / 64 :: real)" "1 - sqrt (24 / 64 :: real) \<le> 1"
    by simp_all
  then have c0: "0 < c" by (simp add: c_def)
  have "c \<le> 1 powr 0.25"
    unfolding c_def using f by (intro powr_mono2) simp_all
  then have c1: "c \<le> 1" by simp
  have "temperature (AccretionDisk_new 4 0 None 100 10000000) 64 =
        min (10000000 * ((4 / 64) ^ 3) powr 0.25 * (1 - sqrt (24 / 64)) powr 0.25) 10000000"
    using temperature_outside [of "AccretionDisk_new 4 0 None 100 10000000" 64]
    by (simp add: AccretionDisk_new_schwarzschild)
  also have "\<dots> = min (10000000 * (1 / 8) * c) 10000000"
    by (simp only: fourth_roots c_def)
  also have "\<dots> = 1250000 * c"
    using c1 by simp
  finally have code: "temperature (AccretionDisk_new 4 0 None 100 10000000) 64 = 1250000 * c" .
  have "min (10000000 * (4 / 64 ^ 3) powr 0.25 * (1 - sqrt (24 / 64)) powr 0.25) 10000000
        = min (10000000 * (1 / 16) * c) 10000000"
    by (simp only: fourth_roots c_def)
  also have "\<dots> = 625000 * c"
    using c1 by simp
  finally have doc: "min (10000000 * (4 / 64 ^ 3) powr 0.25 * (1 - sqrt (24 / 64)) powr 0.25) 10000000
        = 625000 * c" .
  have ne: "temperature (AccretionDisk_new 4 0 None 100 10000000) 64 \<noteq>
     min (10000000 * (4 / 64 ^ 3) powr 0.25 * (1 - sqrt (24 / 64)) powr 0.25) 10000000"
    unfolding code doc using c0 by simp
  have "diskTemperatureNT 64 24 1000 4 0 =
        clamp (1000 * ((4 / 64) ^ 3) powr 0.25 * (1 - sqrt (24 / 64)) powr 0.25) 0 50000"
    using diskTemperatureNT_outside [of 4 24 64 1000] by simp
  also have "\<dots> = clamp (1000 * (1 / 8) * c) 0 50000"
    by (simp only: fourth_roots c_def)
  also have "\<dots> = 125 * c"
    using c0 c1 by (simp add: clamp_def)
  finally have nt: "diskTemperatureNT 64 24 1000 4 0 = 125 * c" .
  have "clamp (1000 * (4 / 64 ^ 3) powr 0.25 * (1 - sqrt (24 / 64)) powr 0.25) 0 50000
        = clamp (1000 * (1 / 16) * c) 0 50000"
    by (simp only: fourth_roots c_def)
  also have "\<dots> = 125 / 2 * c"
    using c0 c1 by (simp add: clamp_def)
  finally have ntdoc: "clamp (1000 * (4 / 64 ^ 3) powr 0.25 * (1 - sqrt (24 / 64)) powr 0.25) 0 50000
        = 125 / 2 * c" .
  from inner c0 code doc ne nt ntdoc show ?thesis
    unfolding c_def by blast
qed


section \<open>Ordering of the characteristic radii\<close>

text \<open>
  With \<open>\<chi> = a / M\<close>, the quantity \<open>Z1 - 1\<close> of the ISCO formula is the non-negative root of
  \<open>w\<^sup>3 = 3 (1 - \<chi>\<^sup>2) w + 2 (1 - \<chi>\<^sup>2)\<close>, and the photon-sphere parameter
  \<open>p = 2 (1 + cos (2/3 arccos (- \<chi>)))\<close> satisfies \<open>4 \<chi>\<^sup>2 = p (3 - p)\<^sup>2\<close>; the comparisons below
  follow from these two polynomial identities.
\<close>

lemma cube_of_cube_root:
  fixes x :: real
  assumes "0 \<le> x"
  shows "(x powr (1 / 3)) ^ 3 = x"
proof -
  have "(x powr (1 / 3)) ^ 3 = (x powr (1 / 3)) powr 3"
    by simp
  also have "\<dots> = x powr 1" by (simp add: powr_powr)
  also have "\<dots> = x" using assms by simp
  finally show ?thesis .
qed

lemma isco_Z1_cubic:
  fixes chi :: real
  assumes "\<bar>chi\<bar> \<le> 1"
  defines "w \<equiv> isco_Z1 chi - 1"
  shows "0 \<le> w" and "w ^ 3 = 3 * (1 - chi\<^sup>2) * w + 2 * (1 - chi\<^sup>2)"
proof -
  define k where "k = 1 - chi\<^sup>2"
  define c where "c = k powr (1 / 3)"
  define u where "u = (1 + chi) powr (1 / 3)"
  define v where "v = (1 - chi) powr (1 / 3)"
  have chi: "- 1 \<le> chi" "chi \<le> 1" using assms(1) by (simp_all add: abs_le_iff)
  have "chi\<^sup>2 \<le> 1" using assms(1) by (simp add: abs_square_le_1)
  then have k0: "0 \<le> k" by (simp add: k_def)
  have w: "w = c * (u + v)"
    using chi by (simp add: w_def isco_Z1_def Let_def c_def u_def v_def k_def power2_eq_square)
  show "0 \<le> w" by (simp add: w c_def u_def v_def)
  have c3: "c ^ 3 = k" using k0 by (simp add: c_def cube_of_cube_root)
  have u3: "u ^ 3 = 1 + chi" using chi by (simp add: u_def cube_of_cube_root)
  have v3: "v ^ 3 = 1 - chi" using chi by (simp add: v_def cube_of_cube_root)
  have "u * v = ((1 + chi) * (1 - chi)) powr (1 / 3)"
    by (simp add: u_def v_def powr_mult)
  also have "(1 + chi) * (1 - chi) = k"
    by (simp add: k_def power2_eq_square algebra_simps)
  finally have uv: "u * v = c" by (simp add: c_def)
  have "(u + v) ^ 3 = u ^ 3 + v ^ 3 + 3 * (u * v) * (u + v)"
    by (simp add: power3_eq_cube algebra_simps)
  also have "\<dots> = 2 + 3 * c * (u + v)"
    by (simp add: u3 v3 uv)
  finally have s3: "(u + v) ^ 3 = 2 + 3 * w"
    by (simp add: w mult.assoc)
  have "w ^ 3 = c ^ 3 * (u + v) ^ 3"
    by (simp add: w power_mult_distrib)
  also have "\<dots> = k * (2 + 3 * w)"
    by (simp add: c3 s3)
  finally show "w ^ 3 = 3 * (1 - chi\<^sup>2) * w + 2 * (1 - chi\<^sup>2)"
    by (simp add: k_def algebra_simps)
qed

text \<open>a nonnegative root of the cubic dominates every nonnegative point where the cubic is not positive\<close>
lemma cubic_root_dominates:
  fixes w y k :: real
  assumes w0: "0 \<le> w" and root: "w ^ 3 = 3 * k * w + 2 * k" and k0: "0 \<le> k"
    and y0: "0 \<le> y" and gy: "y ^ 3 - 3 * k * y - 2 * k \<le> 0"
  shows "y \<le> w"
proof (rule ccontr)
  assume "\<not> y \<le> w"
  then have lt: "w < y" by simp
  have w3k: "3 * k \<le> w\<^sup>2"
  proof (cases "k = 0")
    case True
    then show ?thesis by simp
  next
    case False
    then have kpos: "0 < k" using k0 by simp
    have "w \<noteq> 0"
    proof
      assume "w = 0"
      with root kpos show False by simp
    qed
    then have wpos: "0 < w" using w0 by simp
    have "w * (w\<^sup>2 - 3 * k) = 2 * k"
      using root by (simp add: power3_eq_cube power2_eq_square algebra_simps)
    then have "0 < w * (w\<^sup>2 - 3 * k)" using kpos by simp
    then have "0 < w\<^sup>2 - 3 * k" using wpos by (simp add: zero_less_mult_iff)
    then show ?thesis by simp
  qed
  have "(y ^ 3 - 3 * k * y - 2 * k) - (w ^ 3 - 3 * k * w - 2 * k)
        = (y - w) * (y\<^sup>2 + y * w + w\<^sup>2 - 3 * k)"
    by (simp add: power3_eq_cube power2_eq_square algebra_simps)
  moreover have "0 < y\<^sup>2 + y * w + w\<^sup>2 - 3 * k"
  proof -
    have "0 < y" using lt w0 by simp
    then have "0 < y\<^sup>2" by simp
    moreover have "0 \<le> y * w" using y0 w0 by simp
    ultimately show ?thesis using w3k by linarith
  qed
  ultimately have "0 < (y ^ 3 - 3 * k * y - 2 * k) - (w ^ 3 - 3 * k * w - 2 * k)"
    using lt by simp
  then show False using gy root by simp
qed

lemma isco_Z1_range:
  fixes chi :: real
  assumes "\<bar>chi\<bar> \<le> 1"
  shows "1 \<le> isco_Z1 chi" and "isco_Z1 chi \<le> 3"
proof -
  note c = isco_Z1_cubic [OF assms]
  show "1 \<le> isco_Z1 chi" using c(1) by simp
  have "chi\<^sup>2 \<le> 1" using assms by (simp add: abs_square_le_1)
  then have k: "0 \<le> 1 - chi\<^sup>2" "1 - chi\<^sup>2 \<le> 1" by simp_all
  have "2 ^ 3 - 3 * (1 - chi\<^sup>2) * 2 - 2 * (1 - chi\<^sup>2) = 8 * chi\<^sup>2"
    by simp
  have "isco_Z1 chi - 1 \<le> 2"
  proof (rule ccontr)
    assume "\<not> isco_Z1 chi - 1 \<le> 2"
    then have w2: "2 < isco_Z1 chi - 1" by simp
    define w where "w = isco_Z1 chi - 1"
    have "2 * 2 < w * w" using w2 unfolding w_def [symmetric]
      by (intro mult_strict_mono) simp_all
    then have "4 < w\<^sup>2" by (simp add: power2_eq_square)
    moreover define A where "A = w\<^sup>2"
    moreover define C where "C = chi\<^sup>2"
    ultimately have "4 < A" "0 \<le> C" by simp_all
    then have "1 < A - 3 * (1 - C)" by simp
    then have "1 < w\<^sup>2 - 3 * (1 - chi\<^sup>2)"
      by (simp add: A_def C_def)
    moreover have "0 < w" using w2 by (simp add: w_def)
    ultimately have "w * 1 < w * (w\<^sup>2 - 3 * (1 - chi\<^sup>2))"
      by (intro mult_strict_left_mono)
    moreover have "w * (w\<^sup>2 - 3 * (1 - chi\<^sup>2)) = 2 * (1 - chi\<^sup>2)"
      using c(2) by (simp add: w_def power3_eq_cube power2_eq_square algebra_simps)
    ultimately have "w < 2 * (1 - chi\<^sup>2)" by simp
    moreover have "2 * (1 - chi\<^sup>2) \<le> 2" by simp
    ultimately have "w < 2" by (rule less_le_trans)
    with w2 show False by (simp add: w_def)
  qed
  then show "isco_Z1 chi \<le> 3" by simp
qed

lemma sin_treble_sin: "sin (3 * x) = 3 * sin x - 4 * sin x ^ 3" for x :: real
proof -
  have "sin (3 * x) = sin (2 * x + x)" by simp
  also have "\<dots> = sin (2 * x) * cos x + cos (2 * x) * sin x"
    by (rule sin_add)
  also have "\<dots> = 2 * sin x * (cos x)\<^sup>2 + (1 - 2 * (sin x)\<^sup>2) * sin x"
    by (simp add: sin_double cos_double_sin power2_eq_square)
  also have "\<dots> = 2 * sin x * (1 - (sin x)\<^sup>2) + (1 - 2 * (sin x)\<^sup>2) * sin x"
    by (simp add: cos_squared_eq)
  also have "\<dots> = 3 * sin x - 4 * sin x ^ 3"
    by (simp add: power3_eq_cube power2_eq_square algebra_simps)
  finally show ?thesis .
qed

lemma photon_param:
  fixes chi :: real
  assumes "0 \<le> chi" "chi \<le> 1"
  defines "p \<equiv> 2 * (1 + cos (2 / 3 * arccos (- chi)))"
  shows "1 \<le> p" and "p \<le> 3" and "chi\<^sup>2 = p * (3 - p)\<^sup>2 / 4"
proof -
  define b where "b = arccos (- chi) / 3"
  define t where "t = cos b"
  have ac: "arccos (- chi) = pi - arccos chi"
    using assms(1,2) by (intro arccos_minus) simp_all
  have "0 \<le> arccos chi" "arccos chi \<le> pi / 2"
    using arccos_lbound [of chi] arccos_le_pi2 [OF assms(1,2)] assms(1,2) by simp_all
  then have b: "pi / 6 \<le> b" "b \<le> pi / 3"
    by (simp_all add: b_def ac)
  have p: "p = 4 * t\<^sup>2"
  proof -
    have "2 / 3 * arccos (- chi) = 2 * b" by (simp add: b_def)
    then show ?thesis by (simp add: p_def t_def cos_double_cos)
  qed
  have "cos (3 * b) = - chi"
    using assms(1,2) by (simp add: b_def)
  then have chi: "- chi = 4 * t ^ 3 - 3 * t"
    by (simp add: cos_treble_cos t_def)
  have "cos (pi / 3) \<le> cos b"
    using b by (intro cos_monotone_0_pi_le) simp_all
  then have tlo: "1 / 2 \<le> t" by (simp add: t_def cos_60)
  have "cos b \<le> cos (pi / 6)"
    using b by (intro cos_monotone_0_pi_le) simp_all
  then have thi: "t \<le> sqrt 3 / 2" by (simp add: t_def cos_30)
  have "(1 / 2) * (1 / 2) \<le> t * t"
    using tlo by (intro mult_mono) simp_all
  then show "1 \<le> p" by (simp add: p power2_eq_square)
  have "t * t \<le> (sqrt 3 / 2) * (sqrt 3 / 2)"
    using tlo thi by (intro mult_mono) simp_all
  then show "p \<le> 3" by (simp add: p power2_eq_square)
  have "chi\<^sup>2 = (4 * t ^ 3 - 3 * t)\<^sup>2"
    using chi by (metis power2_minus)
  also have "\<dots> = (4 * t\<^sup>2) * (3 - 4 * t\<^sup>2)\<^sup>2 / 4"
    by (simp add: power2_eq_square power3_eq_cube algebra_simps)
  finally show "chi\<^sup>2 = p * (3 - p)\<^sup>2 / 4" by (simp add: p)
qed

lemma horizon_le_photon:
  fixes chi :: real
  assumes "\<bar>chi\<bar> \<le> 1"
  shows "1 + sqrt (1 - chi\<^sup>2) \<le> 2 * (1 + cos (2 / 3 * arccos (- chi)))"
proof -
  define b where "b = arccos (- chi) / 3"
  define g where "g = sin b"
  have c: "- 1 \<le> - chi" "- chi \<le> 1" using assms by (simp_all add: abs_le_iff)
  have "0 \<le> arccos (- chi)" "arccos (- chi) \<le> pi"
    using c by (simp_all add: arccos_lbound arccos_ubound)
  then have b: "0 \<le> b" "b \<le> pi / 3" by (simp_all add: b_def)
  have "sin (arccos (- chi)) = sqrt (1 - (- chi)\<^sup>2)"
    using assms by (intro sin_arccos_abs) simp
  moreover have "arccos (- chi) = 3 * b" by (simp add: b_def)
  ultimately have lhs: "sqrt (1 - chi\<^sup>2) = 3 * g - 4 * g ^ 3"
    by (simp add: sin_treble_sin g_def)
  have "2 / 3 * arccos (- chi) = 2 * b" by (simp add: b_def)
  then have rhs: "2 * (1 + cos (2 / 3 * arccos (- chi))) = 4 - 4 * g\<^sup>2"
    by (simp add: cos_double_sin g_def)
  have g0: "0 \<le> g" unfolding g_def using b by (intro sin_ge_zero) simp_all
  have "sin b \<le> sin (pi / 3)"
    using b by (intro sin_monotone_2pi_le) simp_all
  then have ghi: "g \<le> sqrt 3 / 2" by (simp add: g_def sin_60)
  have "g * g \<le> (sqrt 3 / 2) * (sqrt 3 / 2)"
    using g0 ghi by (intro mult_mono) simp_all
  then have g2: "0 \<le> 3 - 4 * g\<^sup>2" by (simp add: power2_eq_square)
  have g1: "0 \<le> 1 - g" by (simp add: g_def)
  have "0 \<le> (1 - g) * (3 - 4 * g\<^sup>2)"
    using g1 g2 by (rule mult_nonneg_nonneg)
  also have "(1 - g) * (3 - 4 * g\<^sup>2) = (4 - 4 * g\<^sup>2) - (1 + (3 * g - 4 * g ^ 3))"
    by (simp add: power2_eq_square power3_eq_cube algebra_simps)
  finally have "1 + (3 * g - 4 * g ^ 3) \<le> 4 - 4 * g\<^sup>2" by simp
  then show ?thesis
    unfolding lhs rhs .
qed

lemma Z1_ge_photon:
  fixes chi :: real
  assumes "0 \<le> chi" "chi \<le> 1"
  shows "2 * (1 + cos (2 / 3 * arccos (- chi))) \<le> isco_Z1 chi"
proof -
  define p where "p = 2 * (1 + cos (2 / 3 * arccos (- chi)))"
  note pp = photon_param [OF assms, folded p_def]
  have abs: "\<bar>chi\<bar> \<le> 1" using assms by simp
  note cub = isco_Z1_cubic [OF abs]
  define k where "k = 1 - chi\<^sup>2"
  have k: "k = 1 - p * (3 - p)\<^sup>2 / 4" by (simp add: k_def pp(3))
  have "chi\<^sup>2 \<le> 1" using abs by (simp add: abs_square_le_1)
  then have k0: "0 \<le> k" by (simp add: k_def)
  have "(p - 1) ^ 3 - 3 * k * (p - 1) - 2 * k = - (3 / 4 * p * (p - 1)\<^sup>2 * (3 - p))"
    by (simp add: k power2_eq_square power3_eq_cube field_simps)
  moreover have "0 \<le> 3 / 4 * p * (p - 1)\<^sup>2 * (3 - p)"
    using pp(1,2) by simp
  ultimately have gy: "(p - 1) ^ 3 - 3 * k * (p - 1) - 2 * k \<le> 0" by simp
  have "p - 1 \<le> isco_Z1 chi - 1"
  proof (rule cubic_root_dominates [where k = k])
    show "0 \<le> isco_Z1 chi - 1" by (rule cub(1))
    show "(isco_Z1 chi - 1) ^ 3 = 3 * k * (isco_Z1 chi - 1) + 2 * k"
      using cub(2) by (simp add: k_def)
    show "0 \<le> k" by (rule k0)
    show "0 \<le> p - 1" using pp(1) by simp
    show "(p - 1) ^ 3 - 3 * k * (p - 1) - 2 * k \<le> 0" by (rule gy)
  qed
  then show ?thesis by (simp add: p_def)
qed

lemma photon_le_isco_param:
  fixes chi :: real
  assumes "0 \<le> chi" "chi \<le> 1"
  shows "2 * (1 + cos (2 / 3 * arccos (- chi)))
         \<le> 3 + isco_Z2 chi - sqrt ((3 - isco_Z1 chi) * (3 + isco_Z1 chi + 2 * isco_Z2 chi))"
proof -
  define p where "p = 2 * (1 + cos (2 / 3 * arccos (- chi)))"
  define Z1 where "Z1 = isco_Z1 chi"
  define Z2 where "Z2 = isco_Z2 chi"
  note pp = photon_param [OF assms, folded p_def]
  have abs: "\<bar>chi\<bar> \<le> 1" using assms by simp
  have Z1: "1 \<le> Z1" "Z1 \<le> 3" using isco_Z1_range [OF abs] by (simp_all add: Z1_def)
  have pZ: "p \<le> Z1" using Z1_ge_photon [OF assms] by (simp add: p_def Z1_def)
  have Z2_def': "Z2 = sqrt (3 * chi\<^sup>2 + Z1\<^sup>2)"
    by (simp add: Z2_def Z1_def isco_Z2_def Let_def power2_eq_square)
  have Z2sq: "Z2\<^sup>2 = 3 * chi\<^sup>2 + Z1\<^sup>2"
    by (simp add: Z2_def')
  have "sqrt (Z1\<^sup>2) \<le> Z2" unfolding Z2_def' by (rule real_sqrt_le_mono) simp
  then have Z12: "Z1 \<le> Z2" using Z1 by simp
  have chi2: "3 * chi\<^sup>2 = 3 * p * (3 - p)\<^sup>2 / 4" by (simp add: pp(3))
  have e1: "(3 + Z2 - p)\<^sup>2 - (3 - Z1) * (3 + Z1 + 2 * Z2)
        = Z2\<^sup>2 + Z1\<^sup>2 + p\<^sup>2 - 6 * p + 2 * Z2 * (Z1 - p)"
    by (simp add: power2_eq_square algebra_simps)
  have e2: "Z2\<^sup>2 + Z1\<^sup>2 + p\<^sup>2 - 6 * p + 2 * Z1 * (Z1 - p)
        = (Z1 - p) * (4 * Z1 + 2 * p) + 3 / 4 * p * (p - 1)\<^sup>2"
    unfolding Z2sq chi2 by (simp add: power2_eq_square field_simps)
  have "0 \<le> (Z1 - p) * (4 * Z1 + 2 * p)"
    using pZ Z1 pp(1) by (intro mult_nonneg_nonneg) simp_all
  moreover have "0 \<le> 3 / 4 * p * (p - 1)\<^sup>2" using pp(1) by simp
  ultimately have "0 \<le> Z2\<^sup>2 + Z1\<^sup>2 + p\<^sup>2 - 6 * p + 2 * Z1 * (Z1 - p)"
    unfolding e2 by simp
  moreover have "2 * Z1 * (Z1 - p) \<le> 2 * Z2 * (Z1 - p)"
    using Z12 pZ by (intro mult_right_mono) simp_all
  ultimately have "0 \<le> Z2\<^sup>2 + Z1\<^sup>2 + p\<^sup>2 - 6 * p + 2 * Z2 * (Z1 - p)"
    by linarith
  then have "(3 - Z1) * (3 + Z1 + 2 * Z2) \<le> (3 + Z2 - p)\<^sup>2"
    using e1 by linarith
  moreover have "0 \<le> 3 + Z2 - p" using pp(2) Z12 Z1 by simp
  ultimately have "sqrt ((3 - Z1) * (3 + Z1 + 2 * Z2)) \<le> 3 + Z2 - p"
    by (intro real_le_lsqrt) simp_all
  then show ?thesis by (simp add: p_def Z1_def Z2_def)
qed

lemma isco_Z1_slow_spin:
  fixes chi :: real
  assumes "\<bar>chi\<bar> \<le> 1 / 2"
  shows "27 / 10 \<le> isco_Z1 chi"
proof -
  have abs: "\<bar>chi\<bar> \<le> 1" using assms by simp
  note cub = isco_Z1_cubic [OF abs]
  define k where "k = 1 - chi\<^sup>2"
  have "chi\<^sup>2 \<le> (1 / 2)\<^sup>2"
    using assms abs_le_square_iff [of chi "1 / 2"] by simp
  then have k34: "3 / 4 \<le> k" by (simp add: k_def power2_eq_square)
  have "(17 / 10 :: real) \<le> isco_Z1 chi - 1"
  proof (rule cubic_root_dominates [where k = k])
    show "0 \<le> isco_Z1 chi - 1" by (rule cub(1))
    show "(isco_Z1 chi - 1) ^ 3 = 3 * k * (isco_Z1 chi - 1) + 2 * k"
      using cub(2) by (simp add: k_def)
    show "0 \<le> k" using k34 by simp
    show "(0::real) \<le> 17 / 10" by simp
    show "(17 / 10) ^ 3 - 3 * k * (17 / 10) - 2 * k \<le> 0"
      using k34 by (simp add: power3_eq_cube)
  qed
  then show ?thesis by simp
qed

lemma isco_param_slow_spin:
  fixes chi :: real
  assumes "\<bar>chi\<bar> \<le> 1 / 2"
  shows "3 \<le> 3 + isco_Z2 chi - sqrt ((3 - isco_Z1 chi) * (3 + isco_Z1 chi + 2 * isco_Z2 chi))"
proof -
  define Z1 where "Z1 = isco_Z1 chi"
  define Z2 where "Z2 = isco_Z2 chi"
  have abs: "\<bar>chi\<bar> \<le> 1" using assms by simp
  have Z1: "27 / 10 \<le> Z1" "Z1 \<le> 3"
    using isco_Z1_slow_spin [OF assms] isco_Z1_range [OF abs] by (simp_all add: Z1_def)
  have Z2_def': "Z2 = sqrt (3 * chi\<^sup>2 + Z1\<^sup>2)"
    by (simp add: Z2_def Z1_def isco_Z2_def Let_def power2_eq_square)
  have chi2: "chi\<^sup>2 \<le> 1 / 4"
    using assms abs_le_square_iff [of chi "1 / 2"] by (simp add: power2_eq_square)
  have Z1sq_hi: "Z1\<^sup>2 \<le> 9"
    using Z1 abs_le_square_iff [of Z1 3] by simp
  have Z1sq_lo: "(27 / 10)\<^sup>2 \<le> Z1\<^sup>2"
    using Z1 abs_le_square_iff [of "27 / 10" Z1] by simp
  have Z2sq: "Z2\<^sup>2 = 3 * chi\<^sup>2 + Z1\<^sup>2"
    by (simp add: Z2_def')
  have Z2_0: "0 \<le> Z2" by (simp add: Z2_def')
  have "Z2 \<le> 7 / 2"
    unfolding Z2_def' using chi2 Z1sq_hi by (intro real_le_lsqrt) (simp_all add: power2_eq_square)
  then have hi: "3 + Z1 + 2 * Z2 \<le> 13" using Z1 by simp
  have "(3 - Z1) * (3 + Z1 + 2 * Z2) \<le> 3 / 10 * 13"
    using Z1 Z2_0 hi by (intro mult_mono) simp_all
  also have "\<dots> \<le> (27 / 10)\<^sup>2" by (simp add: power2_eq_square)
  also have "\<dots> \<le> Z2\<^sup>2"
  proof -
    have "0 \<le> 3 * chi\<^sup>2" by simp
    with Z1sq_lo show ?thesis unfolding Z2sq by linarith
  qed
  finally have "sqrt ((3 - Z1) * (3 + Z1 + 2 * Z2)) \<le> Z2"
    using Z2_0 by (intro real_le_lsqrt) simp_all
  then show ?thesis by (simp add: Z1_def Z2_def)
qed

lemma isco_discriminant_nonneg:
  fixes chi :: real
  assumes "\<bar>chi\<bar> \<le> 1"
  shows "0 \<le> (3 - isco_Z1 chi) * (3 + isco_Z1 chi + 2 * isco_Z2 chi)"
proof -
  have "0 \<le> isco_Z2 chi" by (simp add: isco_Z2_def Let_def)
  then show ?thesis
    using isco_Z1_range [OF assms] by (intro mult_nonneg_nonneg) simp_all
qed

lemma valid_spin_ratio:
  fixes m s :: real
  assumes "0 < m" "\<bar>s\<bar> \<le> m"
  shows "\<bar>s / m\<bar> \<le> 1" and "sqrt (m * m - s * s) = m * sqrt (1 - (s / m)\<^sup>2)"
proof -
  show "\<bar>s / m\<bar> \<le> 1" using assms by simp
  have "m * m - s * s = m\<^sup>2 * (1 - (s / m)\<^sup>2)"
    using assms(1) by (simp add: power2_eq_square field_simps)
  then have "sqrt (m * m - s * s) = sqrt (m\<^sup>2) * sqrt (1 - (s / m)\<^sup>2)"
    by (simp only: real_sqrt_mult)
  then show "sqrt (m * m - s * s) = m * sqrt (1 - (s / m)\<^sup>2)"
    using assms(1) by simp
qed

lemma photonSphereRadius_valid:
  fixes m s :: real
  assumes "0 < m" "\<bar>s\<bar> \<le> m" and k: "k = \<lparr>km_M = m, km_a = s, km_a2 = s * s\<rparr>"
  shows "photonSphereRadius k =
           (if \<bar>s\<bar> < EPSILON then 3 * m else m * (2 * (1 + cos (2 / 3 * arccos (- (s / m))))))"
proof -
  have "\<bar>s / m\<bar> \<le> 1" by (rule valid_spin_ratio(1) [OF assms(1,2)])
  then have "- 1 \<le> s / m" "s / m \<le> 1" by (simp_all only: abs_le_iff minus_le_iff)
  then have "max (- 1) (min 1 (s / m)) = s / m" by (simp only: max_def min_def) simp
  then show ?thesis by (simp add: photonSphereRadius_def k Let_def)
qed

lemma iscoRadius_valid:
  fixes m s :: real
  assumes k: "k = \<lparr>km_M = m, km_a = s, km_a2 = s * s\<rparr>"
  shows "iscoRadius k = m * (3 + isco_Z2 (s / m)
            - sqrt ((3 - isco_Z1 (s / m)) * (3 + isco_Z1 (s / m) + 2 * isco_Z2 (s / m))))"
    and "iscoRadiusRetrograde k = m * (3 + isco_Z2 (s / m)
            + sqrt ((3 - isco_Z1 (s / m)) * (3 + isco_Z1 (s / m) + 2 * isco_Z2 (s / m))))"
  by (simp_all add: iscoRadius_def iscoRadiusRetrograde_def k Let_def)

lemma event_le_photon:
  fixes m s :: real
  assumes "0 < m" "\<bar>s\<bar> \<le> m" and k: "k = \<lparr>km_M = m, km_a = s, km_a2 = s * s\<rparr>"
  shows "eventHorizonRadius k \<le> photonSphereRadius k"
proof (cases "\<bar>s\<bar> < EPSILON")
  case True
  have "sqrt (m * m - s * s) \<le> sqrt (m * m)" by (rule real_sqrt_le_mono) simp
  then have "sqrt (m * m - s * s) \<le> m" using assms(1) by simp
  then show ?thesis
    using True assms(1)
    by (simp add: eventHorizonRadius_valid(1) [OF assms] photonSphereRadius_valid [OF assms])
next
  case False
  note r = valid_spin_ratio [OF assms(1,2)]
  have "m * (1 + sqrt (1 - (s / m)\<^sup>2)) \<le> m * (2 * (1 + cos (2 / 3 * arccos (- (s / m)))))"
    using horizon_le_photon [OF r(1)] assms(1) by (intro mult_left_mono) simp_all
  then show ?thesis
    using False
    by (simp add: eventHorizonRadius_valid(1) [OF assms] photonSphereRadius_valid [OF assms]
        r(2) algebra_simps)
qed

lemma inner_le_event:
  fixes m s :: real
  assumes "0 < m" "\<bar>s\<bar> \<le> m" and k: "k = \<lparr>km_M = m, km_a = s, km_a2 = s * s\<rparr>"
  shows "innerHorizonRadius k \<le> eventHorizonRadius k"
proof -
  have "0 \<le> sqrt (max 0 (m * m - s * s))" by simp
  then show ?thesis
    by (simp add: eventHorizonRadius_def innerHorizonRadius_def k)
qed

lemma isco_le_retrograde:
  fixes m s :: real
  assumes "0 < m" "\<bar>s\<bar> \<le> m" and k: "k = \<lparr>km_M = m, km_a = s, km_a2 = s * s\<rparr>"
  shows "iscoRadius k \<le> iscoRadiusRetrograde k"
proof -
  note r = valid_spin_ratio [OF assms(1,2)]
  have "0 \<le> sqrt ((3 - isco_Z1 (s / m)) * (3 + isco_Z1 (s / m) + 2 * isco_Z2 (s / m)))"
    using isco_discriminant_nonneg [OF r(1)] by simp
  then show ?thesis
    unfolding iscoRadius_valid [OF k] using assms(1) by (intro mult_left_mono) simp_all
qed

lemma photon_le_isco:
  fixes m s :: real
  assumes "0 < m" "\<bar>s\<bar> \<le> m" and k: "k = \<lparr>km_M = m, km_a = s, km_a2 = s * s\<rparr>"
    and pro: "0 \<le> s" and thr: "EPSILON \<le> s \<or> 2 * s \<le> m"
  shows "photonSphereRadius k \<le> iscoRadius k"
proof (cases "\<bar>s\<bar> < EPSILON")
  case True
  with pro thr have "2 * s \<le> m" by simp
  then have "\<bar>s / m\<bar> \<le> 1 / 2" using assms(1) pro by (simp add: field_simps)
  then have "m * 3 \<le> m * (3 + isco_Z2 (s / m)
            - sqrt ((3 - isco_Z1 (s / m)) * (3 + isco_Z1 (s / m) + 2 * isco_Z2 (s / m))))"
    using assms(1) by (intro mult_left_mono isco_param_slow_spin) simp_all
  then show ?thesis
    unfolding iscoRadius_valid(1) [OF k] photonSphereRadius_valid [OF assms(1,2) k]
    using True by simp
next
  case False
  have c0: "0 \<le> s / m" using assms(1) pro by simp
  have c1: "s / m \<le> 1" using assms(1,2) by simp
  have "m * (2 * (1 + cos (2 / 3 * arccos (- (s / m))))) \<le> m * (3 + isco_Z2 (s / m)
            - sqrt ((3 - isco_Z1 (s / m)) * (3 + isco_Z1 (s / m) + 2 * isco_Z2 (s / m))))"
    using assms(1) by (intro mult_left_mono photon_le_isco_param [OF c0 c1]) simp_all
  then show ?thesis
    unfolding iscoRadius_valid(1) [OF k] photonSphereRadius_valid [OF assms(1,2) k]
    using False by simp
qed

text \<open>
  What does hold in exact arithmetic, for every metric object built from a valid pair
  (\<open>M > 0\<close>, \<open>|a| \<le> M\<close>): \<open>innerHorizonRadius \<le> eventHorizonRadius \<le> photonSphereRadius\<close> and
  \<open>iscoRadius \<le> iscoRadiusRetrograde\<close>; and \<open>photonSphereRadius \<le> iscoRadius\<close> when the spin
  is prograde, \<open>0 \<le> a\<close>, and either at least the threshold \<^verbatim>\<open>EPSILON\<close> of the Schwarzschild
  branch of \<^verbatim>\<open>photonSphereRadius\<close> or at most \<open>M / 2\<close>. At \<open>a = M\<close> the photon sphere and the
  prograde ISCO coincide, so there the order of the two computed numbers is decided by
  rounding, on which this says nothing.
\<close>

lemma radii_ordering_prograde:
  assumes "KerrMetric_new M a = Inr this"
  shows "innerHorizonRadius this \<le> eventHorizonRadius this \<and>
         eventHorizonRadius this \<le> photonSphereRadius this \<and>
         iscoRadius this \<le> iscoRadiusRetrograde this \<and>
         (0 \<le> a \<and> (EPSILON \<le> a \<or> 2 * a \<le> M) \<longrightarrow>
            photonSphereRadius this \<le> iscoRadius this)"
proof -
  have v: "0 < M" "\<bar>a\<bar> \<le> M"
    using KerrMetric_new_fields [OF assms] by simp_all
  have k: "this = \<lparr>km_M = M, km_a = a, km_a2 = a * a\<rparr>"
    using KerrMetric_new_ok [OF v] assms by simp
  show ?thesis
    using inner_le_event [OF v k] event_le_photon [OF v k] isco_le_retrograde [OF v k]
      photon_le_isco [OF v k]
    by blast
qed

lemma radii_extremal_prograde:
  "photonSphereRadius \<lparr>km_M = 1, km_a = 1, km_a2 = 1\<rparr> = 1"
  "iscoRadius \<lparr>km_M = 1, km_a = 1, km_a2 = 1\<rparr> = 1"
  by (simp_all add: photonSphereRadius_def iscoRadius_def isco_Z1_def isco_Z2_def EPSILON_def
      Let_def sqrt_4 sqrt_16 cos_120)

text \<open>
  C2. The claim orders the five radii for every valid pair, and the validation suite of
  \<^verbatim>\<open>KerrMetric\<close> says the same of its ordering tests (\<^verbatim>\<open>must hold for all spins\<close>). The
  constructor accepts negative spin, and for \<open>M = 1\<close>, \<open>a = -1\<close> the code returns
  \<open>innerHorizonRadius = eventHorizonRadius = 1\<close>, \<open>photonSphereRadius = 4\<close>
  (\<open>arccos 1 = 0\<close>; this is the retrograde photon orbit), \<open>iscoRadius = 1\<close> and
  \<open>iscoRadiusRetrograde = 9\<close>: \<^verbatim>\<open>iscoRadius\<close> depends on the spin through \<open>a\<^sup>2\<close> and
  \<open>|1 - a/M|\<close> only and stays the prograde value, so the photon sphere lies outside the ISCO.
  A second input breaks the same link of the chain: for \<^verbatim>\<open>M = a = 5e-7\<close> the spin is below
  \<^verbatim>\<open>EPSILON\<close>, which \<^verbatim>\<open>photonSphereRadius\<close> compares with \<open>a\<close> and not with \<open>a/M\<close>, so
  the photon sphere is the Schwarzschild \<open>3 M\<close> while the extremal \<^verbatim>\<open>iscoRadius\<close> is \<open>M\<close>.
\<close>

theorem radii_ordering_broken_for_retrograde_spin:
  "KerrMetric_new 1 (- 1) = Inr \<lparr>km_M = 1, km_a = - 1, km_a2 = 1\<rparr> \<and>
   innerHorizonRadius \<lparr>km_M = 1, km_a = - 1, km_a2 = 1\<rparr> = 1 \<and>
   eventHorizonRadius \<lparr>km_M = 1, km_a = - 1, km_a2 = 1\<rparr> = 1 \<and>
   photonSphereRadius \<lparr>km_M = 1, km_a = - 1, km_a2 = 1\<rparr> = 4 \<and>
   iscoRadius \<lparr>km_M = 1, km_a = - 1, km_a2 = 1\<rparr> = 1 \<and>
   iscoRadiusRetrograde \<lparr>km_M = 1, km_a = - 1, km_a2 = 1\<rparr> = 9 \<and>
   \<not> photonSphereRadius \<lparr>km_M = 1, km_a = - 1, km_a2 = 1\<rparr>
       \<le> iscoRadius \<lparr>km_M = 1, km_a = - 1, km_a2 = 1\<rparr> \<and>
   KerrMetric_new (1 / 2000000) (1 / 2000000)
     = Inr \<lparr>km_M = 1 / 2000000, km_a = 1 / 2000000, km_a2 = 1 / 2000000 * (1 / 2000000)\<rparr> \<and>
   \<not> photonSphereRadius
         \<lparr>km_M = 1 / 2000000, km_a = 1 / 2000000, km_a2 = 1 / 2000000 * (1 / 2000000)\<rparr>
       \<le> iscoRadius
         \<lparr>km_M = 1 / 2000000, km_a = 1 / 2000000, km_a2 = 1 / 2000000 * (1 / 2000000)\<rparr>"
  by (simp add: KerrMetric_new_def setParameters_def photonSphereRadius_def iscoRadius_def
      iscoRadiusRetrograde_def innerHorizonRadius_def eventHorizonRadius_def
      isco_Z1_def isco_Z2_def EPSILON_def Let_def sqrt_4 sqrt_16)

end
